theory Spec2Isabelle
  imports Main
begin

section \<open>Host data: URIs, workspace folders, tasks, debug configurations\<close>

text \<open>
  The extension (\<^verbatim>\<open>src/dist/extension.js\<close>) works on objects of the host editor.
  Their TypeScript types give the shape of the model: a \<^verbatim>\<open>Uri\<close> is seen only through
  \<^verbatim>\<open>toString()\<close> and \<^verbatim>\<open>fsPath\<close>; the scope of a task is
  \<^verbatim>\<open>TaskScope.Global | TaskScope.Workspace | WorkspaceFolder | undefined\<close>;
  \<^verbatim>\<open>undefined\<close> is \<open>None\<close>.
\<close>

record vs_uri =
  uri_toString :: string
  fsPath :: string

record workspaceFolder =
  uri :: vs_uri
  wf_name :: "string option"
  index :: nat

datatype taskScope = Global | Workspace | Folder workspaceFolder

datatype json =
    JNull
  | JBool bool
  | JNum int
  | JString string
  | JArray "json list"
  | JObject "(string \<times> json) list"

record task =
  task_name :: string
  task_source :: "string option"
  task_scope :: "taskScope option"
  task_definition :: "json option"
  task_detail :: "string option"
  task_isBackground :: bool

text \<open>
  Launch entries are read from the settings, so their properties are untyped values. The
  code observes them through \<^verbatim>\<open>typeof x === 'string'\<close>, \<^verbatim>\<open>x ?? d\<close>, truthiness and
  template literals; the scalar values below carry exactly that.
\<close>

datatype jsval = Undefined | Null | Str string | Bool bool

fun typeof_string :: "jsval \<Rightarrow> bool" where
  "typeof_string (Str s) = True"
| "typeof_string v = False"

fun nullish :: "jsval \<Rightarrow> bool" where
  "nullish Undefined = True"
| "nullish Null = True"
| "nullish v = False"

definition coalesce :: "jsval \<Rightarrow> jsval \<Rightarrow> jsval" where
  "coalesce v d = (if nullish v then d else v)"

fun js_truthy :: "jsval \<Rightarrow> bool" where
  "js_truthy Undefined = False"
| "js_truthy Null = False"
| "js_truthy (Str s) = (s \<noteq> [])"
| "js_truthy (Bool b) = b"

fun js_string :: "jsval \<Rightarrow> string" where
  "js_string Undefined = ''undefined''"
| "js_string Null = ''null''"
| "js_string (Str s) = s"
| "js_string (Bool b) = (if b then ''true'' else ''false'')"

record debugConfiguration =
  cfg_name :: jsval
  cfg_type :: jsval
  cfg_request :: jsval
  cfg_rest :: "(string \<times> json) list"

record launchSelection =
  configuration :: debugConfiguration
  folder :: "workspaceFolder option"

record taskPickItem =
  tp_label :: string
  tp_description :: "string option"
  tp_detail :: "string option"
  tp_task :: task

record launchPickItem =
  lp_label :: jsval
  lp_description :: jsval
  lp_detail :: "string option"
  lp_launch :: launchSelection

record statusBarItem =
  item_text :: string
  item_tooltip :: "string option"
  item_command :: "string option"
  item_visible :: bool
  item_priority :: int

text \<open>
  A promise of the host either resolves to a value or rejects; \<^verbatim>\<open>await\<close> on a rejected
  promise throws.
\<close>

datatype 'a promise = Fulfilled 'a | Rejected

text \<open>
  Every call into the host is appended to a log, so that what the extension asks of the
  host, and how often, can be stated.
\<close>

datatype host_call =
    Tasks_fetchTasks
  | Tasks_executeTask task
  | Debug_startDebugging "workspaceFolder option" debugConfiguration
  | Window_showTaskQuickPick "taskPickItem list" string
  | Window_showLaunchQuickPick "launchPickItem list" string
  | Window_showInformationMessage string
  | Window_showErrorMessage string
  | Console_error string
  | Memento_update string "string option"
  | Workspace_workspaceFolders
  | Workspace_getConfiguration string "vs_uri option"

section \<open>The extension's module state\<close>

record extension =
  taskSelectorItem :: statusBarItem
  taskRunnerItem :: statusBarItem
  launchSelectorItem :: statusBarItem
  launchRunnerItem :: statusBarItem
  cachedTasks :: "task list"
  cachedLaunches :: "launchSelection list"
  selectedTask :: "task option"
  selectedTaskKey :: "string option"
  selectedLaunch :: "launchSelection option"
  selectedLaunchKey :: "string option"
  state :: "string \<rightharpoonup> string"
  host_calls :: "host_call list"

definition selectedTaskKey_slot :: string where
  "selectedTaskKey_slot = ''task-bus:selectedTaskKey''"

definition selectedLaunchKey_slot :: string where
  "selectedLaunchKey_slot = ''task-bus:selectedLaunchKey''"

text \<open>\<^verbatim>\<open>if (selectedTaskKey)\<close>: \<^verbatim>\<open>undefined\<close> and the empty string are falsy.\<close>

fun key_truthy :: "string option \<Rightarrow> bool" where
  "key_truthy None = False"
| "key_truthy (Some k) = (k \<noteq> [])"

definition call :: "host_call \<Rightarrow> extension \<Rightarrow> extension" where
  "call c s = s\<lparr>host_calls := host_calls s @ [c]\<rparr>"

text \<open>
  \<^verbatim>\<open>window.showQuickPick(picks)\<close> resolves to one of the offered items or to
  \<^verbatim>\<open>undefined\<close>. The user's answer is the position of the chosen item; an answer that
  names no offered item is no item.
\<close>

definition showQuickPick :: "'a list \<Rightarrow> nat option \<Rightarrow> 'a option" where
  "showQuickPick picks answer =
     (case answer of
        None \<Rightarrow> None
      | Some i \<Rightarrow> if i < length picks then Some (picks ! i) else None)"

section \<open>Tasks\<close>

fun isWorkspaceTask :: "task \<Rightarrow> bool" where
  "isWorkspaceTask t =
     (case task_scope t of
        None \<Rightarrow> False
      | Some Global \<Rightarrow> False
      | Some Workspace \<Rightarrow> True
      | Some (Folder f) \<Rightarrow> True)"

fun getScopeId :: "task \<Rightarrow> string" where
  "getScopeId t =
     (case task_scope t of
        None \<Rightarrow> ''unknown''
      | Some Global \<Rightarrow> ''global''
      | Some Workspace \<Rightarrow> ''workspace''
      | Some (Folder f) \<Rightarrow> (case wf_name f of Some n \<Rightarrow> n | None \<Rightarrow> ''workspaceFolder''))"

text \<open>
  \<^verbatim>\<open>JSON.stringify\<close> belongs to the JavaScript runtime. It is the parameter \<open>J\<close> of the
  model: what is proved holds for every serialiser.
\<close>

definition getTaskKey :: "(json \<Rightarrow> string) \<Rightarrow> task \<Rightarrow> string" where
  "getTaskKey J t =
     (let scopeId = getScopeId t;
          definition_str = J (case task_definition t of Some d \<Rightarrow> d | None \<Rightarrow> JObject [])
      in scopeId @ ''::'' @ (case task_source t of Some src \<Rightarrow> src | None \<Rightarrow> [])
           @ ''::'' @ task_name t @ ''::'' @ definition_str)"

fun getTaskDescription :: "task \<Rightarrow> string option" where
  "getTaskDescription t =
     (case task_scope t of
        Some Workspace \<Rightarrow> Some ''Workspace''
      | Some Global \<Rightarrow> task_source t
      | Some (Folder f) \<Rightarrow> (case wf_name f of Some n \<Rightarrow> Some n | None \<Rightarrow> task_source t)
      | None \<Rightarrow> task_source t)"

fun getWorkspaceFolder :: "task \<Rightarrow> workspaceFolder option" where
  "getWorkspaceFolder t =
     (case task_scope t of
        None \<Rightarrow> None
      | Some (Folder f) \<Rightarrow> Some f
      | Some sc \<Rightarrow> None)"

fun getTaskDetail :: "task \<Rightarrow> string option" where
  "getTaskDetail t =
     (case getWorkspaceFolder t of
        Some f \<Rightarrow> Some (fsPath (uri f))
      | None \<Rightarrow> None)"

definition updateTaskStatusBar :: "extension \<Rightarrow> extension" where
  "updateTaskStatusBar s =
     (case selectedTask s of
        Some t \<Rightarrow>
          s\<lparr>taskSelectorItem := (taskSelectorItem s)
               \<lparr>item_text := ''$(list-selection) '' @ task_name t,
                item_tooltip := Some (''Selected task: '' @ task_name t @ [CHR 0x0A]
                                        @ ''Click to choose a different task'')\<rparr>,
            taskRunnerItem := (taskRunnerItem s)
               \<lparr>item_tooltip := Some (''Run '' @ task_name t),
                item_text := ''$(tools)'',
                item_command := Some ''task-bus.executeTask''\<rparr>\<rparr>
      | None \<Rightarrow>
          s\<lparr>taskSelectorItem := (taskSelectorItem s)
               \<lparr>item_text := ''$(list-selection) Select Task'',
                item_tooltip := Some ''No task selected. Click to choose one.''\<rparr>,
            taskRunnerItem := (taskRunnerItem s)
               \<lparr>item_tooltip := Some ''Select a task to run.'',
                item_text := ''$(tools)''\<rparr>\<rparr>)"

text \<open>
  \<open>refreshTasks\<close>: the \<^verbatim>\<open>try\<close> block fetches and filters, the \<^verbatim>\<open>catch\<close> block empties
  the cache and logs; then the selection key is revalidated and the status bar updated.
\<close>

definition refreshTasks :: "(json \<Rightarrow> string) \<Rightarrow> task list promise \<Rightarrow> extension \<Rightarrow> extension" where
  "refreshTasks J fetched s =
     (let s1 = (case fetched of
                  Fulfilled allTasks \<Rightarrow>
                    (call Tasks_fetchTasks s)\<lparr>cachedTasks := filter isWorkspaceTask allTasks\<rparr>
                | Rejected \<Rightarrow>
                    call (Console_error ''[Task Bus] Failed to fetch tasks'')
                      ((call Tasks_fetchTasks s)\<lparr>cachedTasks := []\<rparr>));
          s2 = (if key_truthy (selectedTaskKey s1) then
                  (let matchingTask =
                         find (\<lambda>t. Some (getTaskKey J t) = selectedTaskKey s1) (cachedTasks s1);
                       s' = s1\<lparr>selectedTask := matchingTask\<rparr>
                   in if matchingTask = None then
                        call (Memento_update selectedTaskKey_slot None)
                          (s'\<lparr>selectedTaskKey := None,
                             state := (state s')(selectedTaskKey_slot := None)\<rparr>)
                      else s')
                else s1)
      in updateTaskStatusBar s2)"

definition taskPick :: "task \<Rightarrow> taskPickItem" where
  "taskPick t = \<lparr>tp_label = task_name t, tp_description = getTaskDescription t,
                 tp_detail = getTaskDetail t, tp_task = t\<rparr>"

definition selectTask ::
  "(json \<Rightarrow> string) \<Rightarrow> task list promise \<Rightarrow> nat option \<Rightarrow> extension \<Rightarrow> extension" where
  "selectTask J fetched answer s =
     (let s1 = refreshTasks J fetched s
      in if cachedTasks s1 = [] then
           call (Window_showInformationMessage
                   ''Task Bus did not find any tasks in tasks.json.'') s1
         else
           (let picks = map taskPick (cachedTasks s1);
                s2 = call (Window_showTaskQuickPick picks
                             ''Select the task you want to run with Task Bus'') s1
            in case showQuickPick picks answer of
                 None \<Rightarrow> s2
               | Some selection \<Rightarrow>
                   (let key = getTaskKey J (tp_task selection)
                    in updateTaskStatusBar
                         (call (Memento_update selectedTaskKey_slot (Some key))
                            (s2\<lparr>selectedTask := Some (tp_task selection),
                               selectedTaskKey := Some key,
                               state := (state s2)(selectedTaskKey_slot \<mapsto> key)\<rparr>)))))"

text \<open>
  \<open>executeTask\<close> refreshes, opens the picker when nothing is selected
  (\<open>executeTask_selection\<close>: its statements before the first \<^verbatim>\<open>return\<close>), and hands the
  task to the host inside \<^verbatim>\<open>try\<close>; \<open>started\<close> is the host's answer to
  \<^verbatim>\<open>tasks.executeTask\<close>. The second enumeration and the pick are only consumed when the
  code reaches them.
\<close>

definition executeTask_selection ::
  "(json \<Rightarrow> string) \<Rightarrow> task list promise \<Rightarrow> task list promise \<Rightarrow> nat option
     \<Rightarrow> extension \<Rightarrow> extension" where
  "executeTask_selection J fetched fetched' answer s =
     (let s1 = refreshTasks J fetched s
      in if selectedTask s1 = None then selectTask J fetched' answer s1 else s1)"

definition executeTask ::
  "(json \<Rightarrow> string) \<Rightarrow> task list promise \<Rightarrow> task list promise \<Rightarrow> nat option \<Rightarrow> unit promise
     \<Rightarrow> extension \<Rightarrow> extension" where
  "executeTask J fetched fetched' answer started s =
     (let s2 = executeTask_selection J fetched fetched' answer s
      in case selectedTask s2 of
           None \<Rightarrow> s2
         | Some sel \<Rightarrow>
             (let key = getTaskKey J sel;
                  freshTask = (case find (\<lambda>t. getTaskKey J t = key) (cachedTasks s2) of
                                 Some t \<Rightarrow> t
                               | None \<Rightarrow> sel);
                  s3 = call (Tasks_executeTask freshTask) s2
              in case started of
                   Fulfilled u \<Rightarrow> s3
                 | Rejected \<Rightarrow>
                     (let s4 = call (Window_showErrorMessage
                                 ''Task Bus could not run the selected task. Please re-select it.'')
                                 (call (Console_error ''[Task Bus] Failed to execute task'') s3)
                      in updateTaskStatusBar
                           (call (Memento_update selectedTaskKey_slot None)
                              (s4\<lparr>selectedTask := None,
                                 selectedTaskKey := None,
                                 state := (state s4)(selectedTaskKey_slot := None)\<rparr>)))))"

section \<open>Launch configurations\<close>

definition getLaunchKey :: "launchSelection \<Rightarrow> string" where
  "getLaunchKey l =
     (let folderUri = (case folder l of Some f \<Rightarrow> uri_toString (uri f) | None \<Rightarrow> ''workspace'');
          c = configuration l
      in folderUri @ ''::'' @ js_string (coalesce (cfg_name c) (Str []))
           @ ''::'' @ js_string (coalesce (cfg_type c) (Str []))
           @ ''::'' @ js_string (coalesce (cfg_request c) (Str [])))"

definition getLaunchDescription :: "launchSelection \<Rightarrow> jsval" where
  "getLaunchDescription l =
     (let c = configuration l
      in if js_truthy (cfg_type c) \<and> js_truthy (cfg_request c) then
           Str (js_string (cfg_type c) @ '' ('' @ js_string (cfg_request c) @ '')'')
         else coalesce (cfg_type c) (cfg_request c))"

definition updateLaunchStatusBar :: "extension \<Rightarrow> extension" where
  "updateLaunchStatusBar s =
     (case selectedLaunch s of
        Some l \<Rightarrow>
          (let configName = js_string (cfg_name (configuration l))
           in s\<lparr>launchSelectorItem := (launchSelectorItem s)
                  \<lparr>item_text := ''$(debug-alt) '' @ configName,
                   item_tooltip := Some (''Selected launch configuration: '' @ configName
                                     @ [CHR 0x0A] @ ''Click to choose a different configuration'')\<rparr>,
                launchRunnerItem := (launchRunnerItem s)
                  \<lparr>item_tooltip := Some (''Start '' @ configName),
                   item_text := ''$(rocket)'',
                   item_command := Some ''task-bus.executeLaunch''\<rparr>\<rparr>)
      | None \<Rightarrow>
          s\<lparr>launchSelectorItem := (launchSelectorItem s)
               \<lparr>item_text := ''$(debug-alt) Select Launch'',
                item_tooltip := Some ''No launch configuration selected. Click to choose one.''\<rparr>,
            launchRunnerItem := (launchRunnerItem s)
               \<lparr>item_tooltip := Some ''Select a launch configuration to run.'',
                item_text := ''$(rocket)''\<rparr>\<rparr>)"

text \<open>
  What the host's settings hold when \<open>refreshLaunchConfigurations\<close> reads them:
  \<^verbatim>\<open>workspace.workspaceFolders\<close>, the \<^verbatim>\<open>configurations\<close> of the \<^verbatim>\<open>launch\<close> section
  scoped to a folder's URI, and those of the unscoped section. An entry of a list may be
  \<^verbatim>\<open>null\<close> (\<open>None\<close>).
\<close>

record launchSettings =
  workspaceFolders :: "workspaceFolder list option"
  folderConfigurations :: "vs_uri \<Rightarrow> debugConfiguration option list option"
  workspaceConfigurations :: "debugConfiguration option list option"

text \<open>\<^verbatim>\<open>typeof configuration?.name === 'string'\<close>\<close>

fun hasStringName :: "debugConfiguration option \<Rightarrow> bool" where
  "hasStringName None = False"
| "hasStringName (Some c) = typeof_string (cfg_name c)"

text \<open>The inner loop: \<^verbatim>\<open>for (const configuration of configurations)\<close> with its push.\<close>

fun pushConfigurations ::
  "workspaceFolder option \<Rightarrow> debugConfiguration option list \<Rightarrow> launchSelection list
     \<Rightarrow> launchSelection list" where
  "pushConfigurations f [] launches = launches"
| "pushConfigurations f (None # cs) launches = pushConfigurations f cs launches"
| "pushConfigurations f (Some c # cs) launches =
     pushConfigurations f cs
       (if typeof_string (cfg_name c) then launches @ [\<lparr>configuration = c, folder = f\<rparr>]
        else launches)"

text \<open>The outer loop: \<^verbatim>\<open>for (const folder of folders)\<close>.\<close>

fun pushFolders ::
  "launchSettings \<Rightarrow> workspaceFolder list \<Rightarrow> launchSelection list \<Rightarrow> launchSelection list" where
  "pushFolders h [] launches = launches"
| "pushFolders h (f # fs) launches =
     pushFolders h fs
       (pushConfigurations (Some f)
          (case folderConfigurations h (uri f) of Some cs \<Rightarrow> cs | None \<Rightarrow> [])
          launches)"

definition refreshLaunchConfigurations :: "launchSettings \<Rightarrow> extension \<Rightarrow> extension" where
  "refreshLaunchConfigurations h s =
     (let folders = (case workspaceFolders h of Some fs \<Rightarrow> fs | None \<Rightarrow> []);
          launches = pushFolders h folders [];
          workspaceCfgs = (case workspaceConfigurations h of Some cs \<Rightarrow> cs | None \<Rightarrow> []);
          launches' = pushConfigurations None workspaceCfgs launches;
          s1 = s\<lparr>cachedLaunches := launches',
                 host_calls := host_calls s @ [Workspace_workspaceFolders]
                   @ map (\<lambda>f. Workspace_getConfiguration ''launch'' (Some (uri f))) folders
                   @ [Workspace_getConfiguration ''launch'' None]\<rparr>;
          s2 = (if key_truthy (selectedLaunchKey s1) then
                  (let matching =
                         find (\<lambda>l. Some (getLaunchKey l) = selectedLaunchKey s1) (cachedLaunches s1);
                       s' = s1\<lparr>selectedLaunch := matching\<rparr>
                   in if matching = None then
                        call (Memento_update selectedLaunchKey_slot None)
                          (s'\<lparr>selectedLaunchKey := None,
                             state := (state s')(selectedLaunchKey_slot := None)\<rparr>)
                      else s')
                else s1)
      in updateLaunchStatusBar s2)"

definition launchPick :: "launchSelection \<Rightarrow> launchPickItem" where
  "launchPick l = \<lparr>lp_label = coalesce (cfg_name (configuration l)) (Str ''Unnamed launch''),
                   lp_description = getLaunchDescription l,
                   lp_detail = (case folder l of Some f \<Rightarrow> Some (fsPath (uri f)) | None \<Rightarrow> None),
                   lp_launch = l\<rparr>"

definition selectLaunch :: "launchSettings \<Rightarrow> nat option \<Rightarrow> extension \<Rightarrow> extension" where
  "selectLaunch h answer s =
     (let s1 = refreshLaunchConfigurations h s
      in if cachedLaunches s1 = [] then
           call (Window_showInformationMessage
                   ''Task Bus did not find any launch configurations in launch.json.'') s1
         else
           (let picks = map launchPick (cachedLaunches s1);
                s2 = call (Window_showLaunchQuickPick picks
                             ''Select the launch configuration you want to run with Task Bus'') s1
            in case showQuickPick picks answer of
                 None \<Rightarrow> s2
               | Some selection \<Rightarrow>
                   (let key = getLaunchKey (lp_launch selection)
                    in updateLaunchStatusBar
                         (call (Memento_update selectedLaunchKey_slot (Some key))
                            (s2\<lparr>selectedLaunch := Some (lp_launch selection),
                               selectedLaunchKey := Some key,
                               state := (state s2)(selectedLaunchKey_slot \<mapsto> key)\<rparr>)))))"

text \<open>
  \<open>executeLaunch\<close>; \<open>started\<close> is the host's answer to \<^verbatim>\<open>debug.startDebugging\<close>, a
  promise of a boolean.
\<close>

definition executeLaunch_selection ::
  "launchSettings \<Rightarrow> launchSettings \<Rightarrow> nat option \<Rightarrow> extension \<Rightarrow> extension" where
  "executeLaunch_selection h h' answer s =
     (let s1 = refreshLaunchConfigurations h s
      in if selectedLaunch s1 = None then selectLaunch h' answer s1 else s1)"

definition executeLaunch ::
  "launchSettings \<Rightarrow> launchSettings \<Rightarrow> nat option \<Rightarrow> bool promise \<Rightarrow> extension \<Rightarrow> extension" where
  "executeLaunch h h' answer started s =
     (let s2 = executeLaunch_selection h h' answer s
      in case selectedLaunch s2 of
           None \<Rightarrow> s2
         | Some sel \<Rightarrow>
             (let key = getLaunchKey sel;
                  freshLaunch = (case find (\<lambda>l. getLaunchKey l = key) (cachedLaunches s2) of
                                   Some l \<Rightarrow> l
                                 | None \<Rightarrow> sel);
                  s3 = call (Debug_startDebugging (folder freshLaunch) (configuration freshLaunch)) s2
              in case started of
                   Fulfilled b \<Rightarrow> s3
                 | Rejected \<Rightarrow>
                     (let s4 = call (Window_showErrorMessage
        ''Task Bus could not run the selected launch configuration. Please re-select it.'')
                                 (call (Console_error
                                          ''[Task Bus] Failed to start launch configuration'') s3)
                      in updateLaunchStatusBar
                           (call (Memento_update selectedLaunchKey_slot None)
                              (s4\<lparr>selectedLaunch := None,
                                 selectedLaunchKey := None,
                                 state := (state s4)(selectedLaunchKey_slot := None)\<rparr>)))))"

section \<open>Visibility, activation and the registered listeners\<close>

text \<open>
  The two settings of the \<^verbatim>\<open>task-bus\<close> section as the host holds them; \<open>None\<close> is an
  unset setting, read with the default \<^verbatim>\<open>true\<close>.
\<close>

record visibility =
  showTaskBus :: "bool option"
  showLaunchBus :: "bool option"

definition applyVisibilitySettings :: "visibility \<Rightarrow> extension \<Rightarrow> extension" where
  "applyVisibilitySettings v s =
     (let s0 = call (Workspace_getConfiguration ''task-bus'' None) s;
          showTask = (case showTaskBus v of Some b \<Rightarrow> b | None \<Rightarrow> True);
          showLaunch = (case showLaunchBus v of Some b \<Rightarrow> b | None \<Rightarrow> True)
      in s0\<lparr>taskSelectorItem := (taskSelectorItem s0)\<lparr>item_visible := showTask\<rparr>,
            taskRunnerItem := (taskRunnerItem s0)\<lparr>item_visible := showTask\<rparr>,
            launchSelectorItem := (launchSelectorItem s0)\<lparr>item_visible := showLaunch\<rparr>,
            launchRunnerItem := (launchRunnerItem s0)\<lparr>item_visible := showLaunch\<rparr>\<rparr>)"

definition createStatusBarItem :: "int \<Rightarrow> statusBarItem" where
  "createStatusBarItem priority =
     \<lparr>item_text = [], item_tooltip = None, item_command = None, item_visible = False,
      item_priority = priority\<rparr>"

text \<open>
  \<open>activate\<close> starts from the module's initial variables (empty caches, nothing selected),
  takes the workspace state of the extension context, creates the four items, loads the
  two persisted keys and refreshes.
\<close>

definition activate ::
  "(json \<Rightarrow> string) \<Rightarrow> (string \<rightharpoonup> string) \<Rightarrow> task list promise \<Rightarrow> launchSettings \<Rightarrow> visibility
     \<Rightarrow> extension" where
  "activate J workspaceState fetched h v =
     (let s0 = \<lparr>taskSelectorItem = (createStatusBarItem 100)
                   \<lparr>item_command := Some ''task-bus.selectTask'',
                    item_tooltip := Some ''Select task defined in tasks.json''\<rparr>,
                taskRunnerItem = (createStatusBarItem 99)
                   \<lparr>item_command := Some ''task-bus.executeTask''\<rparr>,
                launchSelectorItem = (createStatusBarItem 98)
                   \<lparr>item_command := Some ''task-bus.selectLaunch'',
                    item_tooltip := Some ''Select launch configuration defined in launch.json''\<rparr>,
                launchRunnerItem = (createStatusBarItem 97)
                   \<lparr>item_command := Some ''task-bus.executeLaunch''\<rparr>,
                cachedTasks = [], cachedLaunches = [],
                selectedTask = None,
                selectedTaskKey = workspaceState selectedTaskKey_slot,
                selectedLaunch = None,
                selectedLaunchKey = workspaceState selectedLaunchKey_slot,
                state = workspaceState,
                host_calls = []\<rparr>
      in applyVisibilitySettings v (refreshLaunchConfigurations h (refreshTasks J fetched s0)))"

text \<open>
  The listener that \<open>activate\<close> registers with \<^verbatim>\<open>workspace.onDidChangeConfiguration\<close>;
  \<open>affects\<close> is the event's \<^verbatim>\<open>affectsConfiguration\<close>.
\<close>

definition onDidChangeConfiguration :: "(string \<Rightarrow> bool) \<Rightarrow> visibility \<Rightarrow> extension \<Rightarrow> extension" where
  "onDidChangeConfiguration affects v s =
     (if affects ''task-bus.showTaskBus'' \<or> affects ''task-bus.showLaunchBus''
      then applyVisibilitySettings v s else s)"

text \<open>
  The events the host can deliver after activation, one per registration in \<open>activate\<close>,
  and the answers of the host that the listener of an event may consume.
\<close>

datatype event =
    TasksWatcher_onDidChange
  | TasksWatcher_onDidCreate
  | TasksWatcher_onDidDelete
  | Workspace_onDidChangeWorkspaceFolders
  | LaunchWatcher_onDidChange
  | LaunchWatcher_onDidCreate
  | LaunchWatcher_onDidDelete
  | Workspace_onDidChangeConfiguration "string \<Rightarrow> bool"
  | Command string

record answers =
  fetched1 :: "task list promise"
  fetched2 :: "task list promise"
  taskAnswer :: "nat option"
  taskStarted :: "unit promise"
  settings1 :: launchSettings
  settings2 :: launchSettings
  launchAnswer :: "nat option"
  debugStarted :: "bool promise"
  shown :: visibility

definition dispatch :: "(json \<Rightarrow> string) \<Rightarrow> event \<Rightarrow> answers \<Rightarrow> extension \<Rightarrow> extension" where
  "dispatch J ev a s =
     (case ev of
        TasksWatcher_onDidChange \<Rightarrow> refreshTasks J (fetched1 a) s
      | TasksWatcher_onDidCreate \<Rightarrow> refreshTasks J (fetched1 a) s
      | TasksWatcher_onDidDelete \<Rightarrow> refreshTasks J (fetched1 a) s
      | Workspace_onDidChangeWorkspaceFolders \<Rightarrow> refreshTasks J (fetched1 a) s
      | LaunchWatcher_onDidChange \<Rightarrow> refreshLaunchConfigurations (settings1 a) s
      | LaunchWatcher_onDidCreate \<Rightarrow> refreshLaunchConfigurations (settings1 a) s
      | LaunchWatcher_onDidDelete \<Rightarrow> refreshLaunchConfigurations (settings1 a) s
      | Workspace_onDidChangeConfiguration affects \<Rightarrow> onDidChangeConfiguration affects (shown a) s
      | Command c \<Rightarrow>
          if c = ''task-bus.selectTask'' then selectTask J (fetched1 a) (taskAnswer a) s
          else if c = ''task-bus.executeTask'' then
            executeTask J (fetched1 a) (fetched2 a) (taskAnswer a) (taskStarted a) s
          else if c = ''task-bus.selectLaunch'' then selectLaunch (settings1 a) (launchAnswer a) s
          else if c = ''task-bus.executeLaunch'' then
            executeLaunch (settings1 a) (settings2 a) (launchAnswer a) (debugStarted a) s
          else s)"

text \<open>
  The states the extension can be in between two listeners: it is activated on a workspace
  state that nothing has written yet, each event runs its listener to completion, and a
  later activation (a reloaded window) finds the workspace state the earlier one left.
\<close>

inductive reachable :: "(json \<Rightarrow> string) \<Rightarrow> extension \<Rightarrow> bool" for J :: "json \<Rightarrow> string" where
  first_activation: "reachable J (activate J Map.empty fetched h v)"
| event: "reachable J s \<Longrightarrow> reachable J (dispatch J ev a s)"
| reactivation: "reachable J s \<Longrightarrow> reachable J (activate J (state s) fetched h v)"

section \<open>Notions used to state the properties\<close>

text \<open>What \<open>refreshTasks\<close> caches for an answer of the host's task enumeration.\<close>

definition tasksFound :: "task list promise \<Rightarrow> task list" where
  "tasksFound fetched =
     (case fetched of Fulfilled allTasks \<Rightarrow> filter isWorkspaceTask allTasks | Rejected \<Rightarrow> [])"

text \<open>What \<open>refreshLaunchConfigurations\<close> caches for given settings.\<close>

definition launchesFound :: "launchSettings \<Rightarrow> launchSelection list" where
  "launchesFound h =
     pushConfigurations None (case workspaceConfigurations h of Some cs \<Rightarrow> cs | None \<Rightarrow> [])
       (pushFolders h (case workspaceFolders h of Some fs \<Rightarrow> fs | None \<Rightarrow> []) [])"

text \<open>The host calls made on the way from state \<open>s\<close> to state \<open>s'\<close>.\<close>

definition calls_since :: "extension \<Rightarrow> extension \<Rightarrow> host_call list" where
  "calls_since s s' = drop (length (host_calls s)) (host_calls s')"

text \<open>
  The calls of one enumeration: of the tasks (with the log entry when the host rejects),
  and of the launch configurations (the workspace folders, then the \<^verbatim>\<open>launch\<close> section of
  each folder and of the workspace).
\<close>

definition fetchCalls :: "task list promise \<Rightarrow> host_call list" where
  "fetchCalls fetched =
     Tasks_fetchTasks #
       (case fetched of Fulfilled ts \<Rightarrow> []
        | Rejected \<Rightarrow> [Console_error ''[Task Bus] Failed to fetch tasks''])"

definition launchReadCalls :: "launchSettings \<Rightarrow> host_call list" where
  "launchReadCalls h =
     [Workspace_workspaceFolders]
       @ map (\<lambda>f. Workspace_getConfiguration ''launch'' (Some (uri f)))
           (case workspaceFolders h of Some fs \<Rightarrow> fs | None \<Rightarrow> [])
       @ [Workspace_getConfiguration ''launch'' None]"

fun is_execution :: "host_call \<Rightarrow> bool" where
  "is_execution (Tasks_executeTask t) = True"
| "is_execution (Debug_startDebugging f c) = True"
| "is_execution c = False"

text \<open>
  A call enumerates candidates when it fetches the tasks or reads the \<^verbatim>\<open>launch\<close>
  section of the settings.
\<close>

fun is_enumeration :: "host_call \<Rightarrow> bool" where
  "is_enumeration Tasks_fetchTasks = True"
| "is_enumeration (Workspace_getConfiguration section u) = (section = ''launch'')"
| "is_enumeration c = False"

text \<open>
  The selector item shows the current selection: the name of the selected item, or the
  placeholder when nothing is selected.
\<close>

definition taskBarCurrent :: "extension \<Rightarrow> bool" where
  "taskBarCurrent s \<longleftrightarrow>
     item_text (taskSelectorItem s) =
       (case selectedTask s of
          Some t \<Rightarrow> ''$(list-selection) '' @ task_name t
        | None \<Rightarrow> ''$(list-selection) Select Task'')"

definition launchBarCurrent :: "extension \<Rightarrow> bool" where
  "launchBarCurrent s \<longleftrightarrow>
     item_text (launchSelectorItem s) =
       (case selectedLaunch s of
          Some l \<Rightarrow> ''$(debug-alt) '' @ js_string (cfg_name (configuration l))
        | None \<Rightarrow> ''$(debug-alt) Select Launch'')"

text \<open>
  The launch cache as the specification words it: for each workspace folder, in order,
  the entries of that folder that have a string name, then the workspace entries that
  have one.
\<close>

definition namedEntries ::
  "workspaceFolder option \<Rightarrow> debugConfiguration option list option \<Rightarrow> launchSelection list" where
  "namedEntries f entries =
     [\<lparr>configuration = c, folder = f\<rparr>.
        Some c \<leftarrow> (case entries of Some cs \<Rightarrow> cs | None \<Rightarrow> []), typeof_string (cfg_name c)]"

definition expectedLaunches :: "launchSettings \<Rightarrow> launchSelection list" where
  "expectedLaunches h =
     concat (map (\<lambda>f. namedEntries (Some f) (folderConfigurations h (uri f)))
               (case workspaceFolders h of Some fs \<Rightarrow> fs | None \<Rightarrow> []))
       @ namedEntries None (workspaceConfigurations h)"

text \<open>
  Consistency of the selection with its key and with the workspace state, for tasks and
  for launch configurations; and what a refresh needs of the state it starts from (the
  in-memory key is the persisted one, is not the empty string, and nothing is selected
  without a key).
\<close>

definition task_ok :: "(json \<Rightarrow> string) \<Rightarrow> extension \<Rightarrow> bool" where
  "task_ok J s \<longleftrightarrow>
     selectedTaskKey s = map_option (getTaskKey J) (selectedTask s) \<and>
     state s selectedTaskKey_slot = selectedTaskKey s"

definition task_pre :: "extension \<Rightarrow> bool" where
  "task_pre s \<longleftrightarrow>
     selectedTaskKey s = state s selectedTaskKey_slot \<and> selectedTaskKey s \<noteq> Some [] \<and>
     (selectedTaskKey s = None \<longrightarrow> selectedTask s = None)"

definition launch_ok :: "extension \<Rightarrow> bool" where
  "launch_ok s \<longleftrightarrow>
     selectedLaunchKey s = map_option getLaunchKey (selectedLaunch s) \<and>
     state s selectedLaunchKey_slot = selectedLaunchKey s"

definition launch_pre :: "extension \<Rightarrow> bool" where
  "launch_pre s \<longleftrightarrow>
     selectedLaunchKey s = state s selectedLaunchKey_slot \<and> selectedLaunchKey s \<noteq> Some [] \<and>
     (selectedLaunchKey s = None \<longrightarrow> selectedLaunch s = None)"

definition consistent :: "(json \<Rightarrow> string) \<Rightarrow> extension \<Rightarrow> bool" where
  "consistent J s \<longleftrightarrow> task_ok J s \<and> launch_ok s"

section \<open>Sample data\<close>

text \<open>Concrete values of the host, on which the theorems below are instantiated.\<close>

fun sample_stringify :: "json \<Rightarrow> string" where
  "sample_stringify JNull = ''null''"
| "sample_stringify (JBool b) = (if b then ''true'' else ''false'')"
| "sample_stringify j = ''{}''"

definition sample_folder :: workspaceFolder where
  "sample_folder = \<lparr>uri = \<lparr>uri_toString = ''file:///w/app'', fsPath = ''/w/app''\<rparr>,
                     wf_name = Some ''app'', index = 0\<rparr>"

definition sample_build :: task where
  "sample_build = \<lparr>task_name = ''build'', task_source = Some ''Workspace'',
                    task_scope = Some (Folder sample_folder),
                    task_definition = Some (JObject []),
                    task_detail = None, task_isBackground = False\<rparr>"

definition sample_test :: task where
  "sample_test = \<lparr>task_name = ''test'', task_source = Some ''Workspace'',
                   task_scope = Some Workspace, task_definition = None,
                   task_detail = Some ''run the tests'', task_isBackground = True\<rparr>"

definition sample_global :: task where
  "sample_global = \<lparr>task_name = ''lint'', task_source = Some ''npm'',
                     task_scope = Some Global, task_definition = None,
                     task_detail = None, task_isBackground = False\<rparr>"

definition sample_unscoped :: task where
  "sample_unscoped = \<lparr>task_name = ''tsc'', task_source = None,
                       task_scope = None, task_definition = None,
                       task_detail = None, task_isBackground = False\<rparr>"

definition sample_node :: debugConfiguration where
  "sample_node = \<lparr>cfg_name = Str ''Run app'', cfg_type = Str ''node'', cfg_request = Str ''launch'',
                   cfg_rest = [(''program'', JString ''main.js'')]\<rparr>"

definition sample_attach :: debugConfiguration where
  "sample_attach = \<lparr>cfg_name = Str ''Attach'', cfg_type = Str ''node'', cfg_request = Undefined,
                     cfg_rest = []\<rparr>"

definition sample_nameless :: debugConfiguration where
  "sample_nameless = \<lparr>cfg_name = Undefined, cfg_type = Str ''node'', cfg_request = Str ''launch'',
                       cfg_rest = []\<rparr>"

definition sample_settings :: launchSettings where
  "sample_settings =
     \<lparr>workspaceFolders = Some [sample_folder],
      folderConfigurations = (\<lambda>u. if uri_toString u = ''file:///w/app''
                                    then Some [Some sample_node, None, Some sample_nameless]
                                    else None),
      workspaceConfigurations = Some [Some sample_nameless, Some sample_attach]\<rparr>"

definition sample_visibility :: visibility where
  "sample_visibility = \<lparr>showTaskBus = None, showLaunchBus = Some False\<rparr>"

definition sample_fetched :: "task list promise" where
  "sample_fetched = Fulfilled [sample_global, sample_test, sample_unscoped, sample_build]"

definition sample_state :: extension where
  "sample_state =
     activate sample_stringify Map.empty sample_fetched sample_settings sample_visibility"

definition sample_answers :: answers where
  "sample_answers =
     \<lparr>fetched1 = sample_fetched, fetched2 = sample_fetched, taskAnswer = Some 1,
      taskStarted = Rejected, settings1 = sample_settings, settings2 = sample_settings,
      launchAnswer = Some 0, debugStarted = Rejected, shown = sample_visibility\<rparr>"

definition sample_selected :: extension where
  "sample_selected =
     dispatch sample_stringify (Command ''task-bus.selectLaunch'') sample_answers
       (dispatch sample_stringify (Command ''task-bus.selectTask'') sample_answers sample_state)"

section \<open>How the operations change the state\<close>

lemma call_simps [simp]:
  "host_calls (call c s) = host_calls s @ [c]"
  "cachedTasks (call c s) = cachedTasks s"
  "cachedLaunches (call c s) = cachedLaunches s"
  "selectedTask (call c s) = selectedTask s"
  "selectedTaskKey (call c s) = selectedTaskKey s"
  "selectedLaunch (call c s) = selectedLaunch s"
  "selectedLaunchKey (call c s) = selectedLaunchKey s"
  "state (call c s) = state s"
  "taskSelectorItem (call c s) = taskSelectorItem s"
  "taskRunnerItem (call c s) = taskRunnerItem s"
  "launchSelectorItem (call c s) = launchSelectorItem s"
  "launchRunnerItem (call c s) = launchRunnerItem s"
  by (simp_all add: call_def)

lemma updateTaskStatusBar_frame [simp]:
  "host_calls (updateTaskStatusBar s) = host_calls s"
  "cachedTasks (updateTaskStatusBar s) = cachedTasks s"
  "cachedLaunches (updateTaskStatusBar s) = cachedLaunches s"
  "selectedTask (updateTaskStatusBar s) = selectedTask s"
  "selectedTaskKey (updateTaskStatusBar s) = selectedTaskKey s"
  "selectedLaunch (updateTaskStatusBar s) = selectedLaunch s"
  "selectedLaunchKey (updateTaskStatusBar s) = selectedLaunchKey s"
  "state (updateTaskStatusBar s) = state s"
  "launchSelectorItem (updateTaskStatusBar s) = launchSelectorItem s"
  "launchRunnerItem (updateTaskStatusBar s) = launchRunnerItem s"
  by (simp_all add: updateTaskStatusBar_def split: option.split)

lemma updateLaunchStatusBar_frame [simp]:
  "host_calls (updateLaunchStatusBar s) = host_calls s"
  "cachedTasks (updateLaunchStatusBar s) = cachedTasks s"
  "cachedLaunches (updateLaunchStatusBar s) = cachedLaunches s"
  "selectedTask (updateLaunchStatusBar s) = selectedTask s"
  "selectedTaskKey (updateLaunchStatusBar s) = selectedTaskKey s"
  "selectedLaunch (updateLaunchStatusBar s) = selectedLaunch s"
  "selectedLaunchKey (updateLaunchStatusBar s) = selectedLaunchKey s"
  "state (updateLaunchStatusBar s) = state s"
  "taskSelectorItem (updateLaunchStatusBar s) = taskSelectorItem s"
  "taskRunnerItem (updateLaunchStatusBar s) = taskRunnerItem s"
  by (simp_all add: updateLaunchStatusBar_def Let_def split: option.split)

lemma slots_distinct [simp]:
  "selectedTaskKey_slot \<noteq> selectedLaunchKey_slot"
  "selectedLaunchKey_slot \<noteq> selectedTaskKey_slot"
  by (simp_all add: selectedTaskKey_slot_def selectedLaunchKey_slot_def)

lemma refreshTasks_cachedTasks:
  "cachedTasks (refreshTasks J fetched s) = tasksFound fetched"
  by (auto simp add: refreshTasks_def tasksFound_def Let_def split: promise.split)

lemma refreshTasks_selectedTask:
  "selectedTask (refreshTasks J fetched s) =
     (if key_truthy (selectedTaskKey s)
      then find (\<lambda>t. Some (getTaskKey J t) = selectedTaskKey s) (tasksFound fetched)
      else selectedTask s)"
  by (auto simp add: refreshTasks_def tasksFound_def Let_def split: promise.split)

lemma refreshTasks_selectedTaskKey:
  "selectedTaskKey (refreshTasks J fetched s) =
     (if key_truthy (selectedTaskKey s) \<and>
         find (\<lambda>t. Some (getTaskKey J t) = selectedTaskKey s) (tasksFound fetched) = None
      then None else selectedTaskKey s)"
  by (auto simp add: refreshTasks_def tasksFound_def Let_def split: promise.split)

lemma refreshTasks_state:
  "state (refreshTasks J fetched s) =
     (if key_truthy (selectedTaskKey s) \<and>
         find (\<lambda>t. Some (getTaskKey J t) = selectedTaskKey s) (tasksFound fetched) = None
      then (state s)(selectedTaskKey_slot := None) else state s)"
  by (auto simp add: refreshTasks_def tasksFound_def Let_def split: promise.split)

lemma refreshTasks_frame [simp]:
  "cachedLaunches (refreshTasks J fetched s) = cachedLaunches s"
  "selectedLaunch (refreshTasks J fetched s) = selectedLaunch s"
  "selectedLaunchKey (refreshTasks J fetched s) = selectedLaunchKey s"
  "launchSelectorItem (refreshTasks J fetched s) = launchSelectorItem s"
  "launchRunnerItem (refreshTasks J fetched s) = launchRunnerItem s"
  by (simp_all add: refreshTasks_def Let_def split: promise.split)

lemma refreshTasks_host_calls:
  "host_calls (refreshTasks J fetched s) =
     host_calls s @ [Tasks_fetchTasks]
       @ (case fetched of Fulfilled ts \<Rightarrow> [] | Rejected \<Rightarrow> [Console_error ''[Task Bus] Failed to fetch tasks''])
       @ (if key_truthy (selectedTaskKey s) \<and>
             find (\<lambda>t. Some (getTaskKey J t) = selectedTaskKey s) (tasksFound fetched) = None
          then [Memento_update selectedTaskKey_slot None] else [])"
  by (auto simp add: refreshTasks_def tasksFound_def Let_def split: promise.split)

lemma refreshLaunch_cachedLaunches:
  "cachedLaunches (refreshLaunchConfigurations h s) = launchesFound h"
  by (simp add: refreshLaunchConfigurations_def launchesFound_def Let_def)

lemma refreshLaunch_selectedLaunch:
  "selectedLaunch (refreshLaunchConfigurations h s) =
     (if key_truthy (selectedLaunchKey s)
      then find (\<lambda>l. Some (getLaunchKey l) = selectedLaunchKey s) (launchesFound h)
      else selectedLaunch s)"
  by (auto simp add: refreshLaunchConfigurations_def launchesFound_def Let_def)

lemma refreshLaunch_selectedLaunchKey:
  "selectedLaunchKey (refreshLaunchConfigurations h s) =
     (if key_truthy (selectedLaunchKey s) \<and>
         find (\<lambda>l. Some (getLaunchKey l) = selectedLaunchKey s) (launchesFound h) = None
      then None else selectedLaunchKey s)"
  by (auto simp add: refreshLaunchConfigurations_def launchesFound_def Let_def)

lemma refreshLaunch_state:
  "state (refreshLaunchConfigurations h s) =
     (if key_truthy (selectedLaunchKey s) \<and>
         find (\<lambda>l. Some (getLaunchKey l) = selectedLaunchKey s) (launchesFound h) = None
      then (state s)(selectedLaunchKey_slot := None) else state s)"
  by (auto simp add: refreshLaunchConfigurations_def launchesFound_def Let_def)

lemma refreshLaunch_frame [simp]:
  "cachedTasks (refreshLaunchConfigurations h s) = cachedTasks s"
  "selectedTask (refreshLaunchConfigurations h s) = selectedTask s"
  "selectedTaskKey (refreshLaunchConfigurations h s) = selectedTaskKey s"
  "taskSelectorItem (refreshLaunchConfigurations h s) = taskSelectorItem s"
  "taskRunnerItem (refreshLaunchConfigurations h s) = taskRunnerItem s"
  by (simp_all add: refreshLaunchConfigurations_def Let_def)

lemma refreshLaunch_host_calls:
  "host_calls (refreshLaunchConfigurations h s) =
     host_calls s @ [Workspace_workspaceFolders]
       @ map (\<lambda>f. Workspace_getConfiguration ''launch'' (Some (uri f)))
           (case workspaceFolders h of Some fs \<Rightarrow> fs | None \<Rightarrow> [])
       @ [Workspace_getConfiguration ''launch'' None]
       @ (if key_truthy (selectedLaunchKey s) \<and>
             find (\<lambda>l. Some (getLaunchKey l) = selectedLaunchKey s) (launchesFound h) = None
          then [Memento_update selectedLaunchKey_slot None] else [])"
  by (auto simp add: refreshLaunchConfigurations_def launchesFound_def Let_def)

lemma getTaskKey_nonempty: "getTaskKey J t \<noteq> []"
  by (simp add: getTaskKey_def Let_def)

lemma getLaunchKey_nonempty: "getLaunchKey l \<noteq> []"
  by (simp add: getLaunchKey_def Let_def)

lemma task_ok_pre: "task_ok J s \<Longrightarrow> task_pre s"
  by (cases "selectedTask s") (auto simp: task_ok_def task_pre_def getTaskKey_nonempty)

lemma launch_ok_pre: "launch_ok s \<Longrightarrow> launch_pre s"
  by (cases "selectedLaunch s") (auto simp: launch_ok_def launch_pre_def getLaunchKey_nonempty)

lemma find_key: "find (\<lambda>t. Some (f t) = k) xs = Some y \<Longrightarrow> k = Some (f y)"
  by (auto simp: find_Some_iff)

lemma refreshTasks_task_ok:
  assumes "task_pre s"
  shows "task_ok J (refreshTasks J fetched s)"
proof (cases "selectedTaskKey s")
  case None
  with assms show ?thesis
    by (simp add: task_ok_def task_pre_def refreshTasks_selectedTask
        refreshTasks_selectedTaskKey refreshTasks_state)
next
  case (Some k)
  with assms have k: "k \<noteq> []" "state s selectedTaskKey_slot = Some k"
    by (simp_all add: task_pre_def)
  show ?thesis
  proof (cases "find (\<lambda>t. Some (getTaskKey J t) = Some k) (tasksFound fetched)")
    case None
    with Some k show ?thesis
      by (simp add: task_ok_def refreshTasks_selectedTask
          refreshTasks_selectedTaskKey refreshTasks_state)
  next
    case (Some y)
    from find_key [OF Some] have "k = getTaskKey J y" by simp
    with Some \<open>selectedTaskKey s = Some k\<close> k show ?thesis
      by (simp add: task_ok_def refreshTasks_selectedTask
          refreshTasks_selectedTaskKey refreshTasks_state)
  qed
qed

lemma refreshLaunch_launch_ok:
  assumes "launch_pre s"
  shows "launch_ok (refreshLaunchConfigurations h s)"
proof (cases "selectedLaunchKey s")
  case None
  with assms show ?thesis
    by (simp add: launch_ok_def launch_pre_def refreshLaunch_selectedLaunch
        refreshLaunch_selectedLaunchKey refreshLaunch_state)
next
  case (Some k)
  with assms have k: "k \<noteq> []" "state s selectedLaunchKey_slot = Some k"
    by (simp_all add: launch_pre_def)
  show ?thesis
  proof (cases "find (\<lambda>l. Some (getLaunchKey l) = Some k) (launchesFound h)")
    case None
    with Some k show ?thesis
      by (simp add: launch_ok_def refreshLaunch_selectedLaunch
          refreshLaunch_selectedLaunchKey refreshLaunch_state)
  next
    case (Some y)
    from find_key [OF Some] have "k = getLaunchKey y" by simp
    with Some \<open>selectedLaunchKey s = Some k\<close> k show ?thesis
      by (simp add: launch_ok_def refreshLaunch_selectedLaunch
          refreshLaunch_selectedLaunchKey refreshLaunch_state)
  qed
qed

lemma selectTask_frame [simp]:
  "cachedLaunches (selectTask J fetched answer s) = cachedLaunches s"
  "selectedLaunch (selectTask J fetched answer s) = selectedLaunch s"
  "selectedLaunchKey (selectTask J fetched answer s) = selectedLaunchKey s"
  "state (selectTask J fetched answer s) selectedLaunchKey_slot = state s selectedLaunchKey_slot"
  "cachedTasks (selectTask J fetched answer s) = tasksFound fetched"
  by (simp_all add: selectTask_def Let_def refreshTasks_cachedTasks refreshTasks_state
      split: option.split)

lemma selectTask_task_ok:
  assumes "task_pre s"
  shows "task_ok J (selectTask J fetched answer s)"
proof -
  have "task_ok J (refreshTasks J fetched s)"
    using assms by (rule refreshTasks_task_ok)
  then show ?thesis
    by (simp add: selectTask_def Let_def task_ok_def split: option.split)
qed

lemma executeTask_selection_frame [simp]:
  "cachedLaunches (executeTask_selection J fetched fetched' answer s) = cachedLaunches s"
  "selectedLaunch (executeTask_selection J fetched fetched' answer s) = selectedLaunch s"
  "selectedLaunchKey (executeTask_selection J fetched fetched' answer s) = selectedLaunchKey s"
  "state (executeTask_selection J fetched fetched' answer s) selectedLaunchKey_slot
     = state s selectedLaunchKey_slot"
  by (simp_all add: executeTask_selection_def Let_def refreshTasks_state)

lemma executeTask_selection_task_ok:
  assumes "task_pre s"
  shows "task_ok J (executeTask_selection J fetched fetched' answer s)"
proof -
  have ok: "task_ok J (refreshTasks J fetched s)"
    using assms by (rule refreshTasks_task_ok)
  then have "task_ok J (selectTask J fetched' answer (refreshTasks J fetched s))"
    by (intro selectTask_task_ok task_ok_pre)
  with ok show ?thesis
    by (simp add: executeTask_selection_def Let_def)
qed

lemma executeTask_frame [simp]:
  "cachedLaunches (executeTask J fetched fetched' answer started s) = cachedLaunches s"
  "selectedLaunch (executeTask J fetched fetched' answer started s) = selectedLaunch s"
  "selectedLaunchKey (executeTask J fetched fetched' answer started s) = selectedLaunchKey s"
  "state (executeTask J fetched fetched' answer started s) selectedLaunchKey_slot
     = state s selectedLaunchKey_slot"
  by (simp_all add: executeTask_def Let_def split: option.split promise.split)

lemma executeTask_task_ok:
  assumes "task_pre s"
  shows "task_ok J (executeTask J fetched fetched' answer started s)"
proof -
  have "task_ok J (executeTask_selection J fetched fetched' answer s)"
    using assms by (rule executeTask_selection_task_ok)
  then show ?thesis
    by (simp add: executeTask_def Let_def task_ok_def split: option.split promise.split)
qed

lemma selectLaunch_frame [simp]:
  "cachedTasks (selectLaunch h answer s) = cachedTasks s"
  "selectedTask (selectLaunch h answer s) = selectedTask s"
  "selectedTaskKey (selectLaunch h answer s) = selectedTaskKey s"
  "state (selectLaunch h answer s) selectedTaskKey_slot = state s selectedTaskKey_slot"
  "cachedLaunches (selectLaunch h answer s) = launchesFound h"
  by (simp_all add: selectLaunch_def Let_def refreshLaunch_cachedLaunches refreshLaunch_state
      split: option.split)

lemma selectLaunch_launch_ok:
  assumes "launch_pre s"
  shows "launch_ok (selectLaunch h answer s)"
proof -
  have "launch_ok (refreshLaunchConfigurations h s)"
    using assms by (rule refreshLaunch_launch_ok)
  then show ?thesis
    by (simp add: selectLaunch_def Let_def launch_ok_def split: option.split)
qed

lemma executeLaunch_selection_frame [simp]:
  "cachedTasks (executeLaunch_selection h h' answer s) = cachedTasks s"
  "selectedTask (executeLaunch_selection h h' answer s) = selectedTask s"
  "selectedTaskKey (executeLaunch_selection h h' answer s) = selectedTaskKey s"
  "state (executeLaunch_selection h h' answer s) selectedTaskKey_slot
     = state s selectedTaskKey_slot"
  by (simp_all add: executeLaunch_selection_def Let_def refreshLaunch_state)

lemma executeLaunch_selection_launch_ok:
  assumes "launch_pre s"
  shows "launch_ok (executeLaunch_selection h h' answer s)"
proof -
  have ok: "launch_ok (refreshLaunchConfigurations h s)"
    using assms by (rule refreshLaunch_launch_ok)
  then have "launch_ok (selectLaunch h' answer (refreshLaunchConfigurations h s))"
    by (intro selectLaunch_launch_ok launch_ok_pre)
  with ok show ?thesis
    by (simp add: executeLaunch_selection_def Let_def)
qed

lemma executeLaunch_frame [simp]:
  "cachedTasks (executeLaunch h h' answer started s) = cachedTasks s"
  "selectedTask (executeLaunch h h' answer started s) = selectedTask s"
  "selectedTaskKey (executeLaunch h h' answer started s) = selectedTaskKey s"
  "state (executeLaunch h h' answer started s) selectedTaskKey_slot
     = state s selectedTaskKey_slot"
  by (simp_all add: executeLaunch_def Let_def split: option.split promise.split)

lemma executeLaunch_launch_ok:
  assumes "launch_pre s"
  shows "launch_ok (executeLaunch h h' answer started s)"
proof -
  have "launch_ok (executeLaunch_selection h h' answer s)"
    using assms by (rule executeLaunch_selection_launch_ok)
  then show ?thesis
    by (simp add: executeLaunch_def Let_def launch_ok_def split: option.split promise.split)
qed

lemma applyVisibilitySettings_frame [simp]:
  "cachedTasks (applyVisibilitySettings v s) = cachedTasks s"
  "cachedLaunches (applyVisibilitySettings v s) = cachedLaunches s"
  "selectedTask (applyVisibilitySettings v s) = selectedTask s"
  "selectedTaskKey (applyVisibilitySettings v s) = selectedTaskKey s"
  "selectedLaunch (applyVisibilitySettings v s) = selectedLaunch s"
  "selectedLaunchKey (applyVisibilitySettings v s) = selectedLaunchKey s"
  "state (applyVisibilitySettings v s) = state s"
  "host_calls (applyVisibilitySettings v s)
     = host_calls s @ [Workspace_getConfiguration ''task-bus'' None]"
  by (simp_all add: applyVisibilitySettings_def Let_def)

lemma task_ok_cong:
  "task_ok J s \<Longrightarrow> selectedTask s' = selectedTask s \<Longrightarrow> selectedTaskKey s' = selectedTaskKey s
     \<Longrightarrow> state s' selectedTaskKey_slot = state s selectedTaskKey_slot \<Longrightarrow> task_ok J s'"
  by (simp add: task_ok_def)

lemma launch_ok_cong:
  "launch_ok s \<Longrightarrow> selectedLaunch s' = selectedLaunch s
     \<Longrightarrow> selectedLaunchKey s' = selectedLaunchKey s
     \<Longrightarrow> state s' selectedLaunchKey_slot = state s selectedLaunchKey_slot \<Longrightarrow> launch_ok s'"
  by (simp add: launch_ok_def)

lemma dispatch_consistent:
  assumes "consistent J s"
  shows "consistent J (dispatch J ev a s)"
proof -
  from assms have t: "task_ok J s" and l: "launch_ok s"
    by (simp_all add: consistent_def)
  note tp = task_ok_pre [OF t] and lp = launch_ok_pre [OF l]
  have r1: "consistent J (refreshTasks J f s)" for f
    unfolding consistent_def
    by (rule conjI, rule refreshTasks_task_ok [OF tp],
        rule launch_ok_cong [OF l], simp_all add: refreshTasks_state)
  have r2: "consistent J (refreshLaunchConfigurations h s)" for h
    unfolding consistent_def
    by (rule conjI, rule task_ok_cong [OF t], simp_all add: refreshLaunch_state,
        rule refreshLaunch_launch_ok [OF lp])
  have r3: "consistent J (selectTask J f x s)" for f x
    unfolding consistent_def
    by (rule conjI, rule selectTask_task_ok [OF tp], rule launch_ok_cong [OF l], simp_all)
  have r4: "consistent J (executeTask J f f' x st s)" for f f' x st
    unfolding consistent_def
    by (rule conjI, rule executeTask_task_ok [OF tp], rule launch_ok_cong [OF l], simp_all)
  have r5: "consistent J (selectLaunch h x s)" for h x
    unfolding consistent_def
    by (rule conjI, rule task_ok_cong [OF t], simp_all, rule selectLaunch_launch_ok [OF lp])
  have r6: "consistent J (executeLaunch h h' x st s)" for h h' x st
    unfolding consistent_def
    by (rule conjI, rule task_ok_cong [OF t], simp_all, rule executeLaunch_launch_ok [OF lp])
  have r7: "consistent J (onDidChangeConfiguration af v s)" for af v
    using assms by (simp add: onDidChangeConfiguration_def consistent_def task_ok_def launch_ok_def)
  show ?thesis
    by (cases ev) (simp_all add: dispatch_def r1 r2 r3 r4 r5 r6 r7 assms)
qed

lemma activate_consistent:
  assumes "workspaceState selectedTaskKey_slot \<noteq> Some []"
    and "workspaceState selectedLaunchKey_slot \<noteq> Some []"
  shows "consistent J (activate J workspaceState fetched h v)"
proof -
  define s0 where "s0 = \<lparr>taskSelectorItem = (createStatusBarItem 100)
                   \<lparr>item_command := Some ''task-bus.selectTask'',
                    item_tooltip := Some ''Select task defined in tasks.json''\<rparr>,
                taskRunnerItem = (createStatusBarItem 99)
                   \<lparr>item_command := Some ''task-bus.executeTask''\<rparr>,
                launchSelectorItem = (createStatusBarItem 98)
                   \<lparr>item_command := Some ''task-bus.selectLaunch'',
                    item_tooltip := Some ''Select launch configuration defined in launch.json''\<rparr>,
                launchRunnerItem = (createStatusBarItem 97)
                   \<lparr>item_command := Some ''task-bus.executeLaunch''\<rparr>,
                cachedTasks = [], cachedLaunches = [],
                selectedTask = None,
                selectedTaskKey = workspaceState selectedTaskKey_slot,
                selectedLaunch = None,
                selectedLaunchKey = workspaceState selectedLaunchKey_slot,
                state = workspaceState,
                host_calls = []\<rparr>"
  have act: "activate J workspaceState fetched h v
      = applyVisibilitySettings v (refreshLaunchConfigurations h (refreshTasks J fetched s0))"
    by (simp add: activate_def s0_def)
  have tp: "task_pre s0" and lp: "launch_pre s0"
    using assms by (simp_all add: task_pre_def launch_pre_def s0_def)
  have t1: "task_ok J (refreshTasks J fetched s0)"
    by (rule refreshTasks_task_ok [OF tp])
  have "launch_pre (refreshTasks J fetched s0)"
    using lp by (auto simp add: launch_pre_def refreshTasks_state)
  then have l2: "launch_ok (refreshLaunchConfigurations h (refreshTasks J fetched s0))"
    by (rule refreshLaunch_launch_ok)
  have t2: "task_ok J (refreshLaunchConfigurations h (refreshTasks J fetched s0))"
    by (rule task_ok_cong [OF t1]) (simp_all add: refreshLaunch_state)
  show ?thesis
    unfolding act consistent_def
    by (rule conjI, rule task_ok_cong [OF t2], simp_all, rule launch_ok_cong [OF l2], simp_all)
qed

lemma consistent_state:
  assumes "consistent J s"
  shows "state s selectedTaskKey_slot \<noteq> Some []" "state s selectedLaunchKey_slot \<noteq> Some []"
  using task_ok_pre [of J s] launch_ok_pre [of s] assms
  by (auto simp add: consistent_def task_pre_def launch_pre_def)

lemma reachable_consistent: "reachable J s \<Longrightarrow> consistent J s"
proof (induction rule: reachable.induct)
  case (first_activation fetched h v)
  show ?case by (rule activate_consistent) simp_all
next
  case (event s ev a)
  then show ?case by (simp add: dispatch_consistent)
next
  case (reactivation s fetched h v)
  then show ?case by (intro activate_consistent consistent_state)
qed

section \<open>The launch loops against the specification\<close>

lemma pushConfigurations_eq:
  "pushConfigurations f cs launches = launches @ namedEntries f (Some cs)"
proof (induction f cs launches rule: pushConfigurations.induct)
  case (1 f launches)
  show ?case by (simp add: namedEntries_def)
next
  case (2 f cs launches)
  then show ?case by (simp add: namedEntries_def)
next
  case (3 f c cs launches)
  then show ?case by (simp add: namedEntries_def)
qed

lemma namedEntries_None [simp]: "namedEntries f None = []" "namedEntries f (Some []) = []"
  by (simp_all add: namedEntries_def)

lemma pushFolders_eq:
  "pushFolders h fs launches =
     launches @ concat (map (\<lambda>f. namedEntries (Some f) (folderConfigurations h (uri f))) fs)"
proof (induction fs arbitrary: launches)
  case Nil
  show ?case by simp
next
  case (Cons f fs)
  show ?case
    by (cases "folderConfigurations h (uri f)") (simp_all add: Cons.IH pushConfigurations_eq)
qed

lemma launchesFound_expected: "launchesFound h = expectedLaunches h"
  by (cases "workspaceConfigurations h")
     (simp_all add: launchesFound_def expectedLaunches_def pushFolders_eq pushConfigurations_eq)

lemma namedEntries_folder: "l \<in> set (namedEntries f entries) \<Longrightarrow> folder l = f"
  by (auto simp: namedEntries_def split: option.splits)

lemma append_order:
  assumes A: "\<forall>x\<in>set A. P x" and B: "\<forall>x\<in>set B. \<not> P x"
    and ij: "i < j" "j < length (A @ B)" and i: "\<not> P ((A @ B) ! i)"
  shows "\<not> P ((A @ B) ! j)"
proof -
  have "\<not> i < length A"
    using A i by (auto simp: nth_append)
  with ij have "\<not> j < length A" "j - length A < length B"
    by simp_all
  with B show ?thesis
    by (simp add: nth_append)
qed

section \<open>The sample data evaluated, and the states that are reachable\<close>

lemma sample_tasksFound: "tasksFound sample_fetched = [sample_test, sample_build]"
  by (simp add: tasksFound_def sample_fetched_def sample_global_def sample_test_def
      sample_unscoped_def sample_build_def)

lemma sample_launchesFound:
  "launchesFound sample_settings =
     [\<lparr>configuration = sample_node, folder = Some sample_folder\<rparr>,
      \<lparr>configuration = sample_attach, folder = None\<rparr>]"
  by (simp add: launchesFound_expected expectedLaunches_def namedEntries_def sample_settings_def
      sample_folder_def sample_node_def sample_attach_def sample_nameless_def)

lemma sample_keys:
  "getTaskKey sample_stringify sample_build = ''app::Workspace::build::{}''"
  "getTaskKey sample_stringify sample_test = ''workspace::Workspace::test::{}''"
  "getLaunchKey \<lparr>configuration = sample_node, folder = Some sample_folder\<rparr>
     = ''file:///w/app::Run app::node::launch''"
  "getLaunchKey \<lparr>configuration = sample_attach, folder = None\<rparr> = ''workspace::Attach::node::''"
  by (simp_all add: getTaskKey_def getLaunchKey_def coalesce_def sample_build_def sample_test_def
      sample_folder_def sample_node_def sample_attach_def)

lemma sample_state_fields:
  "selectedTask sample_state = None" "selectedTaskKey sample_state = None"
  "selectedLaunch sample_state = None" "selectedLaunchKey sample_state = None"
  "state sample_state = Map.empty"
  "cachedTasks sample_state = [sample_test, sample_build]"
  by (simp_all add: sample_state_def activate_def refreshTasks_selectedTask
      refreshTasks_selectedTaskKey refreshLaunch_selectedLaunch refreshLaunch_selectedLaunchKey
      refreshLaunch_state refreshTasks_state refreshTasks_cachedTasks sample_tasksFound)

lemma selectTask_picked:
  assumes "i < length (tasksFound fetched)"
  shows "selectedTask (selectTask J fetched (Some i) s) = Some (tasksFound fetched ! i)"
    and "selectedTaskKey (selectTask J fetched (Some i) s) = Some (getTaskKey J (tasksFound fetched ! i))"
    and "state (selectTask J fetched (Some i) s)
           = (state (refreshTasks J fetched s))(selectedTaskKey_slot \<mapsto> getTaskKey J (tasksFound fetched ! i))"
  using assms
  by (auto simp add: selectTask_def Let_def refreshTasks_cachedTasks showQuickPick_def taskPick_def)

lemma selectLaunch_picked:
  assumes "i < length (launchesFound h)"
  shows "selectedLaunch (selectLaunch h (Some i) s) = Some (launchesFound h ! i)"
    and "selectedLaunchKey (selectLaunch h (Some i) s) = Some (getLaunchKey (launchesFound h ! i))"
    and "state (selectLaunch h (Some i) s)
           = (state (refreshLaunchConfigurations h s))(selectedLaunchKey_slot \<mapsto> getLaunchKey (launchesFound h ! i))"
  using assms
  by (auto simp add: selectLaunch_def Let_def refreshLaunch_cachedLaunches showQuickPick_def launchPick_def)

lemma sample_selected_fields:
  "selectedTask sample_selected = Some sample_build"
  "selectedTaskKey sample_selected = Some ''app::Workspace::build::{}''"
  "selectedLaunch sample_selected = Some \<lparr>configuration = sample_node, folder = Some sample_folder\<rparr>"
  "selectedLaunchKey sample_selected = Some ''file:///w/app::Run app::node::launch''"
  "state sample_selected selectedTaskKey_slot = Some ''app::Workspace::build::{}''"
  "state sample_selected selectedLaunchKey_slot = Some ''file:///w/app::Run app::node::launch''"
  by (simp_all add: sample_selected_def dispatch_def sample_answers_def selectTask_picked
      selectLaunch_picked sample_tasksFound sample_launchesFound sample_keys
      refreshLaunch_state refreshTasks_state sample_state_fields)

lemma sample_reachable:
  "reachable sample_stringify sample_state" "reachable sample_stringify sample_selected"
  unfolding sample_state_def sample_selected_def
  by (intro reachable.intros)+

section \<open>The status bar after each operation\<close>

lemma updateTaskStatusBar_idem:
  "updateTaskStatusBar (updateTaskStatusBar s) = updateTaskStatusBar s"
  by (cases "selectedTask s") (simp_all add: updateTaskStatusBar_def)

lemma updateLaunchStatusBar_idem:
  "updateLaunchStatusBar (updateLaunchStatusBar s) = updateLaunchStatusBar s"
  by (cases "selectedLaunch s") (simp_all add: updateLaunchStatusBar_def Let_def)

lemma updateTaskStatusBar_call:
  "updateTaskStatusBar s = s \<Longrightarrow> updateTaskStatusBar (call c s) = call c s"
proof -
  assume a: "updateTaskStatusBar s = s"
  have "updateTaskStatusBar (call c s) = call c (updateTaskStatusBar s)"
    by (cases "selectedTask s") (simp_all add: updateTaskStatusBar_def call_def)
  with a show ?thesis by simp
qed

lemma updateLaunchStatusBar_call:
  "updateLaunchStatusBar s = s \<Longrightarrow> updateLaunchStatusBar (call c s) = call c s"
proof -
  assume a: "updateLaunchStatusBar s = s"
  have "updateLaunchStatusBar (call c s) = call c (updateLaunchStatusBar s)"
    by (cases "selectedLaunch s") (simp_all add: updateLaunchStatusBar_def call_def Let_def)
  with a show ?thesis by simp
qed

lemma taskBarCurrent_update: "taskBarCurrent (updateTaskStatusBar s)"
  by (cases "selectedTask s") (simp_all add: taskBarCurrent_def updateTaskStatusBar_def)

lemma launchBarCurrent_update: "launchBarCurrent (updateLaunchStatusBar s)"
  by (cases "selectedLaunch s") (simp_all add: launchBarCurrent_def updateLaunchStatusBar_def Let_def)

lemma refreshTasks_updated: "updateTaskStatusBar (refreshTasks J fetched s) = refreshTasks J fetched s"
  by (simp add: refreshTasks_def Let_def updateTaskStatusBar_idem)

lemma refreshLaunch_updated:
  "updateLaunchStatusBar (refreshLaunchConfigurations h s) = refreshLaunchConfigurations h s"
  by (simp add: refreshLaunchConfigurations_def Let_def updateLaunchStatusBar_idem)

lemma selectTask_updated:
  "updateTaskStatusBar (selectTask J fetched answer s) = selectTask J fetched answer s"
  by (simp add: selectTask_def Let_def updateTaskStatusBar_idem updateTaskStatusBar_call
      refreshTasks_updated split: option.split)

lemma selectLaunch_updated:
  "updateLaunchStatusBar (selectLaunch h answer s) = selectLaunch h answer s"
  by (simp add: selectLaunch_def Let_def updateLaunchStatusBar_idem updateLaunchStatusBar_call
      refreshLaunch_updated split: option.split)

lemma executeTask_selection_updated:
  "updateTaskStatusBar (executeTask_selection J fetched fetched' answer s)
     = executeTask_selection J fetched fetched' answer s"
  by (simp add: executeTask_selection_def Let_def refreshTasks_updated selectTask_updated)

lemma executeLaunch_selection_updated:
  "updateLaunchStatusBar (executeLaunch_selection h h' answer s)
     = executeLaunch_selection h h' answer s"
  by (simp add: executeLaunch_selection_def Let_def refreshLaunch_updated selectLaunch_updated)

lemma executeTask_updated:
  "updateTaskStatusBar (executeTask J fetched fetched' answer started s)
     = executeTask J fetched fetched' answer started s"
  by (simp add: executeTask_def Let_def updateTaskStatusBar_idem updateTaskStatusBar_call
      executeTask_selection_updated split: option.split promise.split)

lemma executeLaunch_updated:
  "updateLaunchStatusBar (executeLaunch h h' answer started s)
     = executeLaunch h h' answer started s"
  by (simp add: executeLaunch_def Let_def updateLaunchStatusBar_idem updateLaunchStatusBar_call
      executeLaunch_selection_updated split: option.split promise.split)

lemma taskBarCurrent_fixed: "updateTaskStatusBar s = s \<Longrightarrow> taskBarCurrent s"
  using taskBarCurrent_update [of s] by simp

lemma launchBarCurrent_fixed: "updateLaunchStatusBar s = s \<Longrightarrow> launchBarCurrent s"
  using launchBarCurrent_update [of s] by simp

section \<open>The calls made to the host\<close>







text \<open>The calls of the \<^verbatim>\<open>try\<close> and \<^verbatim>\<open>catch\<close> blocks of the two executions.\<close>

lemma executeTask_host_calls:
  "host_calls (executeTask J fetched fetched' answer started s) =
     (let s2 = executeTask_selection J fetched fetched' answer s
      in host_calls s2 @
         (case selectedTask s2 of
            None \<Rightarrow> []
          | Some sel \<Rightarrow>
              Tasks_executeTask
                (case find (\<lambda>t. getTaskKey J t = getTaskKey J sel) (cachedTasks s2) of
                   Some t \<Rightarrow> t | None \<Rightarrow> sel)
              # (case started of
                   Fulfilled u \<Rightarrow> []
                 | Rejected \<Rightarrow>
                     [Console_error ''[Task Bus] Failed to execute task'',
                      Window_showErrorMessage
                        ''Task Bus could not run the selected task. Please re-select it.'',
                      Memento_update selectedTaskKey_slot None])))"
  by (simp add: executeTask_def Let_def split: option.split promise.split)

lemma executeLaunch_host_calls:
  "host_calls (executeLaunch h h' answer started s) =
     (let s2 = executeLaunch_selection h h' answer s
      in host_calls s2 @
         (case selectedLaunch s2 of
            None \<Rightarrow> []
          | Some sel \<Rightarrow>
              (let fresh = (case find (\<lambda>l. getLaunchKey l = getLaunchKey sel) (cachedLaunches s2) of
                              Some l \<Rightarrow> l | None \<Rightarrow> sel)
               in Debug_startDebugging (folder fresh) (configuration fresh)
                  # (case started of
                       Fulfilled b \<Rightarrow> []
                     | Rejected \<Rightarrow>
                         [Console_error ''[Task Bus] Failed to start launch configuration'',
                          Window_showErrorMessage
        ''Task Bus could not run the selected launch configuration. Please re-select it.'',
                          Memento_update selectedLaunchKey_slot None]))))"
  by (simp add: executeLaunch_def Let_def split: option.split promise.split)

section \<open>Running with nothing selected\<close>

lemma sample_task_dispatch:
  "selectedTask (executeTask_selection sample_stringify sample_fetched fetched' answer sample_selected)
     = Some sample_build"
  "cachedTasks (executeTask_selection sample_stringify sample_fetched fetched' answer sample_selected)
     = [sample_test, sample_build]"
  by (simp_all add: executeTask_selection_def Let_def refreshTasks_selectedTask
      refreshTasks_cachedTasks sample_selected_fields sample_tasksFound sample_keys)

lemma sample_launch_dispatch:
  "selectedLaunch (executeLaunch_selection sample_settings h' answer sample_selected)
     = Some \<lparr>configuration = sample_node, folder = Some sample_folder\<rparr>"
  "cachedLaunches (executeLaunch_selection sample_settings h' answer sample_selected)
     = [\<lparr>configuration = sample_node, folder = Some sample_folder\<rparr>,
        \<lparr>configuration = sample_attach, folder = None\<rparr>]"
  by (simp_all add: executeLaunch_selection_def Let_def refreshLaunch_selectedLaunch
      refreshLaunch_cachedLaunches sample_selected_fields sample_launchesFound sample_keys)

lemma fetchCalls_no_execution: "filter is_execution (fetchCalls fetched) = []"
  by (cases fetched) (simp_all add: fetchCalls_def)

lemma launchReadCalls_no_execution: "filter is_execution (launchReadCalls h) = []"
  by (auto simp: launchReadCalls_def filter_empty_conv)

lemma refreshTasks_idle:
  assumes "selectedTaskKey s = None"
  shows "host_calls (refreshTasks J fetched s) = host_calls s @ fetchCalls fetched"
    and "selectedTask (refreshTasks J fetched s) = selectedTask s"
    and "selectedTaskKey (refreshTasks J fetched s) = None"
    and "state (refreshTasks J fetched s) = state s"
  using assms
  by (simp_all add: refreshTasks_host_calls refreshTasks_selectedTask
      refreshTasks_selectedTaskKey refreshTasks_state fetchCalls_def split: promise.split)

lemma refreshLaunch_idle:
  assumes "selectedLaunchKey s = None"
  shows "host_calls (refreshLaunchConfigurations h s) = host_calls s @ launchReadCalls h"
    and "selectedLaunch (refreshLaunchConfigurations h s) = selectedLaunch s"
    and "selectedLaunchKey (refreshLaunchConfigurations h s) = None"
    and "state (refreshLaunchConfigurations h s) = state s"
  using assms
  by (simp_all add: refreshLaunch_host_calls refreshLaunch_selectedLaunch
      refreshLaunch_selectedLaunchKey refreshLaunch_state launchReadCalls_def)

lemma selectTask_idle:
  assumes "selectedTaskKey s = None" and "answer = None \<or> tasksFound fetched = []"
  shows "host_calls (selectTask J fetched answer s) = host_calls s @ fetchCalls fetched
           @ [if tasksFound fetched = []
              then Window_showInformationMessage ''Task Bus did not find any tasks in tasks.json.''
              else Window_showTaskQuickPick (map taskPick (tasksFound fetched))
                     ''Select the task you want to run with Task Bus'']"
    and "selectedTask (selectTask J fetched answer s) = selectedTask s"
    and "selectedTaskKey (selectTask J fetched answer s) = None"
    and "state (selectTask J fetched answer s) = state s"
  using assms
  by (auto simp add: selectTask_def Let_def refreshTasks_idle refreshTasks_cachedTasks
      showQuickPick_def)

lemma selectLaunch_idle:
  assumes "selectedLaunchKey s = None" and "answer = None \<or> launchesFound h = []"
  shows "host_calls (selectLaunch h answer s) = host_calls s @ launchReadCalls h
           @ [if launchesFound h = []
              then Window_showInformationMessage
                     ''Task Bus did not find any launch configurations in launch.json.''
              else Window_showLaunchQuickPick (map launchPick (launchesFound h))
                     ''Select the launch configuration you want to run with Task Bus'']"
    and "selectedLaunch (selectLaunch h answer s) = selectedLaunch s"
    and "selectedLaunchKey (selectLaunch h answer s) = None"
    and "state (selectLaunch h answer s) = state s"
  using assms
  by (auto simp add: selectLaunch_def Let_def refreshLaunch_idle refreshLaunch_cachedLaunches
      showQuickPick_def)

lemma sample_answers_fields:
  "fetched1 sample_answers = sample_fetched" "settings1 sample_answers = sample_settings"
  "shown sample_answers = sample_visibility"
  by (simp_all add: sample_answers_def)

lemma sample_fetchCalls: "fetchCalls sample_fetched = [Tasks_fetchTasks]"
  by (simp add: fetchCalls_def sample_fetched_def)

lemma onDidChangeConfiguration_calls:
  "calls_since s (onDidChangeConfiguration affects v s) =
     (if affects ''task-bus.showTaskBus'' \<or> affects ''task-bus.showLaunchBus''
      then [Workspace_getConfiguration ''task-bus'' None] else [])"
  by (simp add: onDidChangeConfiguration_def calls_since_def)


section \<open>Execution from the state at the call\<close>






















section \<open>The claims\<close>

text \<open>
  C2. \<open>refreshTasks\<close> caches exactly the workspace-scoped tasks among those the host's task
  enumeration returns, in their order: a fetched task is kept if and only if its scope is
  defined and is not \<^verbatim>\<open>TaskScope.Global\<close>.
\<close>

theorem refreshTasks_caches_workspace_tasks:
  "cachedTasks (refreshTasks J (Fulfilled allTasks) s) =
     filter (\<lambda>t. task_scope t \<noteq> None \<and> task_scope t \<noteq> Some Global) allTasks"
proof -
  have "isWorkspaceTask = (\<lambda>t. task_scope t \<noteq> None \<and> task_scope t \<noteq> Some Global)"
    by (rule ext) (simp split: option.split taskScope.split)
  then show ?thesis
    by (simp add: refreshTasks_cachedTasks tasksFound_def)
qed

text \<open>
  C4. The key is a function of its parts: two tasks with the same scope id (\<open>getScopeId\<close>:
  unknown, global, workspace or the folder's name), source, name and definition have the
  same task key, and two launch selections with the same folder URI (or both without a
  folder), name, type and request have the same launch key; nothing else of the task or of
  the launch selection enters the key.
\<close>

theorem keys_are_functions_of_their_parts:
  "(getScopeId t = getScopeId t' \<and> task_source t = task_source t' \<and> task_name t = task_name t'
      \<and> task_definition t = task_definition t' \<longrightarrow> getTaskKey J t = getTaskKey J t')
   \<and> (map_option (\<lambda>f. uri_toString (uri f)) (folder l) = map_option (\<lambda>f. uri_toString (uri f)) (folder l')
      \<and> cfg_name (configuration l) = cfg_name (configuration l')
      \<and> cfg_type (configuration l) = cfg_type (configuration l')
      \<and> cfg_request (configuration l) = cfg_request (configuration l')
      \<longrightarrow> getLaunchKey l = getLaunchKey l')"
proof (intro conjI impI)
  assume "getScopeId t = getScopeId t' \<and> task_source t = task_source t' \<and> task_name t = task_name t'
      \<and> task_definition t = task_definition t'"
  then show "getTaskKey J t = getTaskKey J t'"
    by (simp add: getTaskKey_def del: getScopeId.simps)
next
  assume a: "map_option (\<lambda>f. uri_toString (uri f)) (folder l) = map_option (\<lambda>f. uri_toString (uri f)) (folder l')
      \<and> cfg_name (configuration l) = cfg_name (configuration l')
      \<and> cfg_type (configuration l) = cfg_type (configuration l')
      \<and> cfg_request (configuration l) = cfg_request (configuration l')"
  then have "(case folder l of Some f \<Rightarrow> uri_toString (uri f) | None \<Rightarrow> ''workspace'')
     = (case folder l' of Some f \<Rightarrow> uri_toString (uri f) | None \<Rightarrow> ''workspace'')"
    by (cases "folder l"; cases "folder l'") simp_all
  with a show "getLaunchKey l = getLaunchKey l'"
    by (simp add: getLaunchKey_def Let_def)
qed

theorem keys_are_functions_of_their_parts_witness:
  "getTaskKey sample_stringify sample_build = ''app::Workspace::build::{}''
   \<and> getTaskKey sample_stringify
        (sample_build\<lparr>task_detail := Some ''compile'', task_isBackground := True,
           task_scope := Some (Folder (sample_folder\<lparr>index := 3\<rparr>))\<rparr>) = ''app::Workspace::build::{}''
   \<and> getLaunchKey \<lparr>configuration = sample_node, folder = None\<rparr> = ''workspace::Run app::node::launch''
   \<and> getLaunchKey \<lparr>configuration = sample_node\<lparr>cfg_rest := []\<rparr>, folder = None\<rparr>
        = ''workspace::Run app::node::launch''"
  using keys_are_functions_of_their_parts [of sample_build
      "sample_build\<lparr>task_detail := Some ''compile'', task_isBackground := True,
           task_scope := Some (Folder (sample_folder\<lparr>index := 3\<rparr>))\<rparr>"
      sample_stringify "\<lparr>configuration = sample_node, folder = None\<rparr>"
      "\<lparr>configuration = sample_node\<lparr>cfg_rest := []\<rparr>, folder = None\<rparr>"]
  by (simp add: sample_build_def sample_folder_def sample_node_def getTaskKey_def
      getLaunchKey_def coalesce_def)

text \<open>
  C5. \<open>refreshLaunchConfigurations\<close> caches, for each workspace folder in order, the
  folder's launch entries, followed by the workspace entries, keeping exactly the entries
  whose name is a string; no workspace entry precedes a folder entry in the cache.
\<close>

theorem launch_cache_contents:
  "cachedLaunches (refreshLaunchConfigurations h s) = expectedLaunches h
   \<and> (\<forall>i j. i < j \<and> j < length (cachedLaunches (refreshLaunchConfigurations h s))
          \<and> folder (cachedLaunches (refreshLaunchConfigurations h s) ! i) = None
        \<longrightarrow> folder (cachedLaunches (refreshLaunchConfigurations h s) ! j) = None)"
proof -
  let ?A = "concat (map (\<lambda>f. namedEntries (Some f) (folderConfigurations h (uri f)))
               (case workspaceFolders h of Some fs \<Rightarrow> fs | None \<Rightarrow> []))"
  let ?B = "namedEntries None (workspaceConfigurations h)"
  have eq: "cachedLaunches (refreshLaunchConfigurations h s) = ?A @ ?B"
    by (simp add: refreshLaunch_cachedLaunches launchesFound_expected expectedLaunches_def)
  have A: "\<forall>l\<in>set ?A. folder l \<noteq> None"
    by (auto dest: namedEntries_folder)
  have B: "\<forall>l\<in>set ?B. \<not> folder l \<noteq> None"
    by (auto dest: namedEntries_folder)
  have "\<not> folder ((?A @ ?B) ! j) \<noteq> None"
    if "i < j" "j < length (?A @ ?B)" "folder ((?A @ ?B) ! i) = None" for i j
    using append_order [of ?A "\<lambda>l. folder l \<noteq> None" ?B i j, OF A B] that by simp
  then show ?thesis
    unfolding eq by (auto simp: expectedLaunches_def)
qed

theorem launch_cache_contents_witness:
  "cachedLaunches (refreshLaunchConfigurations sample_settings sample_state) =
     [\<lparr>configuration = sample_node, folder = Some sample_folder\<rparr>,
      \<lparr>configuration = sample_attach, folder = None\<rparr>]
   \<and> (0::nat) < 1
   \<and> (1::nat) < length (cachedLaunches (refreshLaunchConfigurations sample_settings sample_state))
   \<and> folder (cachedLaunches (refreshLaunchConfigurations sample_settings sample_state) ! 1) = None"
  using launch_cache_contents [of sample_settings sample_state]
  by (simp add: expectedLaunches_def namedEntries_def sample_settings_def sample_folder_def
      sample_node_def sample_attach_def sample_nameless_def)

text \<open>
  C9. Between two listeners the selection is consistent with its key: after activation
  and after every listener (\<open>refreshTasks\<close>, \<open>selectTask\<close>, \<open>executeTask\<close> and the launch
  counterparts), run to completion one after the other, the selected item is defined
  exactly when the in-memory key is, the key is then the derived key of the selected item,
  and the workspace state holds the in-memory key.
\<close>

theorem selection_consistent:
  assumes "reachable J s"
  shows "(selectedTask s = None \<longleftrightarrow> selectedTaskKey s = None)
       \<and> (\<forall>t. selectedTask s = Some t \<longrightarrow> selectedTaskKey s = Some (getTaskKey J t))
       \<and> state s selectedTaskKey_slot = selectedTaskKey s
       \<and> (selectedLaunch s = None \<longleftrightarrow> selectedLaunchKey s = None)
       \<and> (\<forall>l. selectedLaunch s = Some l \<longrightarrow> selectedLaunchKey s = Some (getLaunchKey l))
       \<and> state s selectedLaunchKey_slot = selectedLaunchKey s"
proof -
  from assms have "task_ok J s" "launch_ok s"
    using reachable_consistent [of J s] by (simp_all add: consistent_def)
  then show ?thesis
    by (auto simp: task_ok_def launch_ok_def)
qed

theorem selection_consistent_witness:
  "reachable sample_stringify sample_selected
   \<and> selectedTask sample_selected = Some sample_build
   \<and> selectedTaskKey sample_selected = Some (getTaskKey sample_stringify sample_build)
   \<and> state sample_selected selectedTaskKey_slot = Some ''app::Workspace::build::{}''
   \<and> selectedLaunchKey sample_selected = Some ''file:///w/app::Run app::node::launch''
   \<and> state sample_selected selectedLaunchKey_slot = selectedLaunchKey sample_selected"
  using selection_consistent [OF sample_reachable(2)] sample_reachable(2)
  by (simp add: sample_selected_fields sample_keys)

text \<open>
  C1. At a refresh (\<open>refreshTasks\<close> or \<open>refreshLaunchConfigurations\<close>) with a persisted
  selection key present (a non-empty string, of which the in-memory key is the copy), the
  in-memory selection becomes the first cached candidate whose derived key is that key
  (\<open>find\<close> returns the first); if no cached candidate has it, the selection, the
  in-memory key and the key in the workspace state are all cleared, and otherwise the key
  stays as it is.
\<close>

theorem refresh_revalidates_persisted_key:
  "(selectedTaskKey s = state s selectedTaskKey_slot \<and> state s selectedTaskKey_slot = Some k
      \<and> k \<noteq> [] \<longrightarrow>
     (let s' = refreshTasks J fetched s;
          m = find (\<lambda>t. getTaskKey J t = k) (cachedTasks s')
      in selectedTask s' = m
         \<and> (if m = None
            then selectedTaskKey s' = None \<and> state s' selectedTaskKey_slot = None
            else selectedTaskKey s' = Some k \<and> state s' selectedTaskKey_slot = Some k)))
   \<and> (selectedLaunchKey s = state s selectedLaunchKey_slot
      \<and> state s selectedLaunchKey_slot = Some k' \<and> k' \<noteq> [] \<longrightarrow>
     (let s' = refreshLaunchConfigurations h s;
          m = find (\<lambda>l. getLaunchKey l = k') (cachedLaunches s')
      in selectedLaunch s' = m
         \<and> (if m = None
            then selectedLaunchKey s' = None \<and> state s' selectedLaunchKey_slot = None
            else selectedLaunchKey s' = Some k' \<and> state s' selectedLaunchKey_slot = Some k')))"
proof (intro conjI impI)
  assume "selectedTaskKey s = state s selectedTaskKey_slot \<and> state s selectedTaskKey_slot = Some k
      \<and> k \<noteq> []"
  then have k: "selectedTaskKey s = Some k" "state s selectedTaskKey_slot = Some k" "k \<noteq> []"
    by simp_all
  show "let s' = refreshTasks J fetched s;
          m = find (\<lambda>t. getTaskKey J t = k) (cachedTasks s')
      in selectedTask s' = m
         \<and> (if m = None
            then selectedTaskKey s' = None \<and> state s' selectedTaskKey_slot = None
            else selectedTaskKey s' = Some k \<and> state s' selectedTaskKey_slot = Some k)"
    using k
    by (simp add: Let_def refreshTasks_cachedTasks refreshTasks_selectedTask
        refreshTasks_selectedTaskKey refreshTasks_state)
next
  assume "selectedLaunchKey s = state s selectedLaunchKey_slot
      \<and> state s selectedLaunchKey_slot = Some k' \<and> k' \<noteq> []"
  then have k: "selectedLaunchKey s = Some k'" "state s selectedLaunchKey_slot = Some k'" "k' \<noteq> []"
    by simp_all
  show "let s' = refreshLaunchConfigurations h s;
          m = find (\<lambda>l. getLaunchKey l = k') (cachedLaunches s')
      in selectedLaunch s' = m
         \<and> (if m = None
            then selectedLaunchKey s' = None \<and> state s' selectedLaunchKey_slot = None
            else selectedLaunchKey s' = Some k' \<and> state s' selectedLaunchKey_slot = Some k')"
    using k
    by (simp add: Let_def refreshLaunch_cachedLaunches refreshLaunch_selectedLaunch
        refreshLaunch_selectedLaunchKey refreshLaunch_state)
qed

theorem refresh_revalidates_persisted_key_witness:
  "selectedTaskKey sample_selected = state sample_selected selectedTaskKey_slot
   \<and> state sample_selected selectedTaskKey_slot = Some ''app::Workspace::build::{}''
   \<and> selectedTask (refreshTasks sample_stringify (Fulfilled [sample_global, sample_test]) sample_selected) = None
   \<and> selectedTaskKey (refreshTasks sample_stringify (Fulfilled [sample_global, sample_test]) sample_selected) = None
   \<and> state (refreshTasks sample_stringify (Fulfilled [sample_global, sample_test]) sample_selected)
        selectedTaskKey_slot = None
   \<and> selectedLaunchKey sample_selected = state sample_selected selectedLaunchKey_slot
   \<and> state sample_selected selectedLaunchKey_slot = Some ''file:///w/app::Run app::node::launch''
   \<and> selectedLaunch (refreshLaunchConfigurations sample_settings sample_selected)
        = Some \<lparr>configuration = sample_node, folder = Some sample_folder\<rparr>
   \<and> selectedLaunchKey (refreshLaunchConfigurations sample_settings sample_selected)
        = Some ''file:///w/app::Run app::node::launch''
   \<and> state (refreshLaunchConfigurations sample_settings sample_selected) selectedLaunchKey_slot
        = Some ''file:///w/app::Run app::node::launch''"
  using refresh_revalidates_persisted_key [of sample_selected "''app::Workspace::build::{}''"
      sample_stringify "Fulfilled [sample_global, sample_test]"
      "''file:///w/app::Run app::node::launch''" sample_settings]
  by (simp add: sample_selected_fields refreshTasks_cachedTasks refreshLaunch_cachedLaunches
      sample_launchesFound sample_keys tasksFound_def sample_global_def sample_test_def
      getTaskKey_def Let_def)

text \<open>
  C7. After each operation that changes the selection or the cache (the two refreshes, the
  two selections and the two executions, on every path through them) the selector item
  shows the current selection: the name of the selected item, or the placeholder
  \<^verbatim>\<open>Select Task\<close> / \<^verbatim>\<open>Select Launch\<close>. The display update is the last change made to the
  state: updating the display once more changes nothing.
\<close>

theorem status_bar_follows_selection:
  "taskBarCurrent (refreshTasks J fetched s)
   \<and> updateTaskStatusBar (refreshTasks J fetched s) = refreshTasks J fetched s
   \<and> taskBarCurrent (selectTask J fetched answer s)
   \<and> updateTaskStatusBar (selectTask J fetched answer s) = selectTask J fetched answer s
   \<and> taskBarCurrent (executeTask J fetched fetched' answer started s)
   \<and> updateTaskStatusBar (executeTask J fetched fetched' answer started s)
        = executeTask J fetched fetched' answer started s
   \<and> launchBarCurrent (refreshLaunchConfigurations h s)
   \<and> updateLaunchStatusBar (refreshLaunchConfigurations h s) = refreshLaunchConfigurations h s
   \<and> launchBarCurrent (selectLaunch h answer s)
   \<and> updateLaunchStatusBar (selectLaunch h answer s) = selectLaunch h answer s
   \<and> launchBarCurrent (executeLaunch h h' answer debugging s)
   \<and> updateLaunchStatusBar (executeLaunch h h' answer debugging s)
        = executeLaunch h h' answer debugging s"
  by (intro conjI taskBarCurrent_fixed launchBarCurrent_fixed refreshTasks_updated
      selectTask_updated executeTask_updated refreshLaunch_updated selectLaunch_updated
      executeLaunch_updated)




text \<open>
  C3. Errors are handled by logging and clearing the selection. When the host rejects
  \<^verbatim>\<open>tasks.executeTask\<close> (or \<^verbatim>\<open>debug.startDebugging\<close>), the selection, its in-memory key
  and its persisted key are cleared and the selector shows the placeholder; after the one
  execution call come only the log entry, the error message and the update of the
  workspace state. When the enumeration of the tasks fails, the task cache becomes the
  empty list after a single fetch and a log entry, and a persisted task selection is
  cleared by the revalidation. Nothing is retried.
\<close>

theorem errors_clear_the_selection:
  "(selectedTask (executeTask_selection J fetched fetched' answer s) = Some sel \<longrightarrow>
      (let s2 = executeTask_selection J fetched fetched' answer s;
           s' = executeTask J fetched fetched' answer Rejected s
       in selectedTask s' = None \<and> selectedTaskKey s' = None
          \<and> state s' selectedTaskKey_slot = None
          \<and> item_text (taskSelectorItem s') = ''$(list-selection) Select Task''
          \<and> calls_since s2 s' =
               [Tasks_executeTask
                  (case find (\<lambda>t. getTaskKey J t = getTaskKey J sel) (cachedTasks s2) of
                     Some t \<Rightarrow> t | None \<Rightarrow> sel),
                Console_error ''[Task Bus] Failed to execute task'',
                Window_showErrorMessage
                  ''Task Bus could not run the selected task. Please re-select it.'',
                Memento_update selectedTaskKey_slot None]))
   \<and> (selectedLaunch (executeLaunch_selection h h' answer' s) = Some sel' \<longrightarrow>
      (let s2 = executeLaunch_selection h h' answer' s;
           s' = executeLaunch h h' answer' Rejected s
       in selectedLaunch s' = None \<and> selectedLaunchKey s' = None
          \<and> state s' selectedLaunchKey_slot = None
          \<and> item_text (launchSelectorItem s') = ''$(debug-alt) Select Launch''
          \<and> calls_since s2 s' =
               [case find (\<lambda>l. getLaunchKey l = getLaunchKey sel') (cachedLaunches s2) of
                  Some l \<Rightarrow> Debug_startDebugging (folder l) (configuration l)
                | None \<Rightarrow> Debug_startDebugging (folder sel') (configuration sel'),
                Console_error ''[Task Bus] Failed to start launch configuration'',
                Window_showErrorMessage
        ''Task Bus could not run the selected launch configuration. Please re-select it.'',
                Memento_update selectedLaunchKey_slot None]))
   \<and> cachedTasks (refreshTasks J Rejected s) = []
   \<and> calls_since s (refreshTasks J Rejected s) =
        [Tasks_fetchTasks, Console_error ''[Task Bus] Failed to fetch tasks'']
          @ (if key_truthy (selectedTaskKey s) then [Memento_update selectedTaskKey_slot None]
             else [])
   \<and> (selectedTaskKey s = state s selectedTaskKey_slot \<and> state s selectedTaskKey_slot = Some k
       \<and> k \<noteq> [] \<longrightarrow>
        selectedTask (refreshTasks J Rejected s) = None
        \<and> selectedTaskKey (refreshTasks J Rejected s) = None
        \<and> state (refreshTasks J Rejected s) selectedTaskKey_slot = None
        \<and> item_text (taskSelectorItem (refreshTasks J Rejected s))
             = ''$(list-selection) Select Task'')"
proof -
  have a: "selectedTask (executeTask_selection J fetched fetched' answer s) = Some sel \<longrightarrow>
      (let s2 = executeTask_selection J fetched fetched' answer s;
           s' = executeTask J fetched fetched' answer Rejected s
       in selectedTask s' = None \<and> selectedTaskKey s' = None
          \<and> state s' selectedTaskKey_slot = None
          \<and> item_text (taskSelectorItem s') = ''$(list-selection) Select Task''
          \<and> calls_since s2 s' =
               [Tasks_executeTask
                  (case find (\<lambda>t. getTaskKey J t = getTaskKey J sel) (cachedTasks s2) of
                     Some t \<Rightarrow> t | None \<Rightarrow> sel),
                Console_error ''[Task Bus] Failed to execute task'',
                Window_showErrorMessage
                  ''Task Bus could not run the selected task. Please re-select it.'',
                Memento_update selectedTaskKey_slot None])"
  proof
    assume sel: "selectedTask (executeTask_selection J fetched fetched' answer s) = Some sel"
    let ?s' = "executeTask J fetched fetched' answer Rejected s"
    have 1: "selectedTask ?s' = None" "selectedTaskKey ?s' = None"
      "state ?s' selectedTaskKey_slot = None"
      using sel by (simp_all add: executeTask_def Let_def)
    have "taskBarCurrent ?s'"
      by (intro taskBarCurrent_fixed executeTask_updated)
    with 1 have 2: "item_text (taskSelectorItem ?s') = ''$(list-selection) Select Task''"
      by (simp add: taskBarCurrent_def)
    have 3: "calls_since (executeTask_selection J fetched fetched' answer s) ?s' =
               [Tasks_executeTask
                  (case find (\<lambda>t. getTaskKey J t = getTaskKey J sel)
                          (cachedTasks (executeTask_selection J fetched fetched' answer s)) of
                     Some t \<Rightarrow> t | None \<Rightarrow> sel),
                Console_error ''[Task Bus] Failed to execute task'',
                Window_showErrorMessage
                  ''Task Bus could not run the selected task. Please re-select it.'',
                Memento_update selectedTaskKey_slot None]"
      using sel by (simp add: calls_since_def executeTask_host_calls Let_def)
    from 1 2 3 show "let s2 = executeTask_selection J fetched fetched' answer s;
           s' = executeTask J fetched fetched' answer Rejected s
       in selectedTask s' = None \<and> selectedTaskKey s' = None
          \<and> state s' selectedTaskKey_slot = None
          \<and> item_text (taskSelectorItem s') = ''$(list-selection) Select Task''
          \<and> calls_since s2 s' =
               [Tasks_executeTask
                  (case find (\<lambda>t. getTaskKey J t = getTaskKey J sel) (cachedTasks s2) of
                     Some t \<Rightarrow> t | None \<Rightarrow> sel),
                Console_error ''[Task Bus] Failed to execute task'',
                Window_showErrorMessage
                  ''Task Bus could not run the selected task. Please re-select it.'',
                Memento_update selectedTaskKey_slot None]"
      by (simp add: Let_def)
  qed
  have b: "selectedLaunch (executeLaunch_selection h h' answer' s) = Some sel' \<longrightarrow>
      (let s2 = executeLaunch_selection h h' answer' s;
           s' = executeLaunch h h' answer' Rejected s
       in selectedLaunch s' = None \<and> selectedLaunchKey s' = None
          \<and> state s' selectedLaunchKey_slot = None
          \<and> item_text (launchSelectorItem s') = ''$(debug-alt) Select Launch''
          \<and> calls_since s2 s' =
               [case find (\<lambda>l. getLaunchKey l = getLaunchKey sel') (cachedLaunches s2) of
                  Some l \<Rightarrow> Debug_startDebugging (folder l) (configuration l)
                | None \<Rightarrow> Debug_startDebugging (folder sel') (configuration sel'),
                Console_error ''[Task Bus] Failed to start launch configuration'',
                Window_showErrorMessage
        ''Task Bus could not run the selected launch configuration. Please re-select it.'',
                Memento_update selectedLaunchKey_slot None])"
  proof
    assume sel: "selectedLaunch (executeLaunch_selection h h' answer' s) = Some sel'"
    let ?s' = "executeLaunch h h' answer' Rejected s"
    have 1: "selectedLaunch ?s' = None" "selectedLaunchKey ?s' = None"
      "state ?s' selectedLaunchKey_slot = None"
      using sel by (simp_all add: executeLaunch_def Let_def)
    have "launchBarCurrent ?s'"
      by (intro launchBarCurrent_fixed executeLaunch_updated)
    with 1 have 2: "item_text (launchSelectorItem ?s') = ''$(debug-alt) Select Launch''"
      by (simp add: launchBarCurrent_def)
    have 3: "calls_since (executeLaunch_selection h h' answer' s) ?s' =
               [case find (\<lambda>l. getLaunchKey l = getLaunchKey sel')
                       (cachedLaunches (executeLaunch_selection h h' answer' s)) of
                  Some l \<Rightarrow> Debug_startDebugging (folder l) (configuration l)
                | None \<Rightarrow> Debug_startDebugging (folder sel') (configuration sel'),
                Console_error ''[Task Bus] Failed to start launch configuration'',
                Window_showErrorMessage
        ''Task Bus could not run the selected launch configuration. Please re-select it.'',
                Memento_update selectedLaunchKey_slot None]"
      using sel
      by (simp add: calls_since_def executeLaunch_host_calls Let_def split: option.split)
    from 1 2 3 show "let s2 = executeLaunch_selection h h' answer' s;
           s' = executeLaunch h h' answer' Rejected s
       in selectedLaunch s' = None \<and> selectedLaunchKey s' = None
          \<and> state s' selectedLaunchKey_slot = None
          \<and> item_text (launchSelectorItem s') = ''$(debug-alt) Select Launch''
          \<and> calls_since s2 s' =
               [case find (\<lambda>l. getLaunchKey l = getLaunchKey sel') (cachedLaunches s2) of
                  Some l \<Rightarrow> Debug_startDebugging (folder l) (configuration l)
                | None \<Rightarrow> Debug_startDebugging (folder sel') (configuration sel'),
                Console_error ''[Task Bus] Failed to start launch configuration'',
                Window_showErrorMessage
        ''Task Bus could not run the selected launch configuration. Please re-select it.'',
                Memento_update selectedLaunchKey_slot None]"
      by (simp add: Let_def)
  qed
  have c1: "cachedTasks (refreshTasks J Rejected s) = []"
    by (simp add: refreshTasks_cachedTasks tasksFound_def)
  have c2: "calls_since s (refreshTasks J Rejected s) =
        [Tasks_fetchTasks, Console_error ''[Task Bus] Failed to fetch tasks'']
          @ (if key_truthy (selectedTaskKey s) then [Memento_update selectedTaskKey_slot None]
             else [])"
    by (simp add: calls_since_def refreshTasks_host_calls tasksFound_def)
  have c3: "selectedTaskKey s = state s selectedTaskKey_slot \<and> state s selectedTaskKey_slot = Some k
       \<and> k \<noteq> [] \<longrightarrow>
        selectedTask (refreshTasks J Rejected s) = None
        \<and> selectedTaskKey (refreshTasks J Rejected s) = None
        \<and> state (refreshTasks J Rejected s) selectedTaskKey_slot = None
        \<and> item_text (taskSelectorItem (refreshTasks J Rejected s))
             = ''$(list-selection) Select Task''"
  proof
    assume "selectedTaskKey s = state s selectedTaskKey_slot \<and> state s selectedTaskKey_slot = Some k
       \<and> k \<noteq> []"
    then have k: "selectedTaskKey s = Some k" "k \<noteq> []" by simp_all
    then have 1: "selectedTask (refreshTasks J Rejected s) = None"
      "selectedTaskKey (refreshTasks J Rejected s) = None"
      "state (refreshTasks J Rejected s) selectedTaskKey_slot = None"
      by (simp_all add: refreshTasks_selectedTask refreshTasks_selectedTaskKey
          refreshTasks_state tasksFound_def)
    have "taskBarCurrent (refreshTasks J Rejected s)"
      by (intro taskBarCurrent_fixed refreshTasks_updated)
    with 1 show "selectedTask (refreshTasks J Rejected s) = None
        \<and> selectedTaskKey (refreshTasks J Rejected s) = None
        \<and> state (refreshTasks J Rejected s) selectedTaskKey_slot = None
        \<and> item_text (taskSelectorItem (refreshTasks J Rejected s))
             = ''$(list-selection) Select Task''"
      by (simp add: taskBarCurrent_def)
  qed
  from a b c1 c2 c3 show ?thesis by blast
qed

theorem errors_clear_the_selection_witness:
  "selectedTask (executeTask_selection sample_stringify sample_fetched sample_fetched None
                   sample_selected) = Some sample_build
   \<and> selectedTask (executeTask sample_stringify sample_fetched sample_fetched None Rejected
                     sample_selected) = None
   \<and> state (executeTask sample_stringify sample_fetched sample_fetched None Rejected
               sample_selected) selectedTaskKey_slot = None
   \<and> calls_since
        (executeTask_selection sample_stringify sample_fetched sample_fetched None sample_selected)
        (executeTask sample_stringify sample_fetched sample_fetched None Rejected sample_selected)
       = [Tasks_executeTask sample_build,
          Console_error ''[Task Bus] Failed to execute task'',
          Window_showErrorMessage ''Task Bus could not run the selected task. Please re-select it.'',
          Memento_update selectedTaskKey_slot None]
   \<and> selectedLaunch (executeLaunch_selection sample_settings sample_settings None sample_selected)
       = Some \<lparr>configuration = sample_node, folder = Some sample_folder\<rparr>
   \<and> selectedLaunch (executeLaunch sample_settings sample_settings None Rejected sample_selected)
       = None
   \<and> state (executeLaunch sample_settings sample_settings None Rejected sample_selected)
        selectedLaunchKey_slot = None
   \<and> selectedTaskKey sample_selected = state sample_selected selectedTaskKey_slot
   \<and> state sample_selected selectedTaskKey_slot = Some ''app::Workspace::build::{}''
   \<and> cachedTasks (refreshTasks sample_stringify Rejected sample_selected) = []
   \<and> selectedTask (refreshTasks sample_stringify Rejected sample_selected) = None
   \<and> state (refreshTasks sample_stringify Rejected sample_selected) selectedTaskKey_slot = None"
  using errors_clear_the_selection [of sample_stringify sample_fetched sample_fetched None
      sample_selected sample_build sample_settings sample_settings None
      "\<lparr>configuration = sample_node, folder = Some sample_folder\<rparr>"
      "''app::Workspace::build::{}''"]
  by (simp add: sample_task_dispatch sample_launch_dispatch sample_keys sample_selected_fields
      Let_def)

text \<open>
  C10. Running with nothing selected (no selected item, hence no key): \<open>executeTask\<close>
  refreshes and goes through \<open>selectTask\<close>, which refreshes again and opens the picker
  when the cache is not empty (and shows an information message when it is). If the user
  dismisses the picker, or the cache is empty, the command ends without an execution call
  and leaves the selection, the keys and the workspace state as they were. The same holds
  for \<open>executeLaunch\<close>.
\<close>

theorem run_without_selection:
  "(selectedTask s = None \<and> selectedTaskKey s = None
      \<and> (answer = None \<or> tasksFound fetched' = []) \<longrightarrow>
     (let s' = executeTask J fetched fetched' answer started s
      in calls_since s s' =
           fetchCalls fetched @ fetchCalls fetched'
             @ [if tasksFound fetched' = []
                then Window_showInformationMessage
                       ''Task Bus did not find any tasks in tasks.json.''
                else Window_showTaskQuickPick (map taskPick (tasksFound fetched'))
                       ''Select the task you want to run with Task Bus'']
         \<and> filter is_execution (calls_since s s') = []
         \<and> selectedTask s' = None \<and> selectedTaskKey s' = None
         \<and> selectedLaunch s' = selectedLaunch s \<and> selectedLaunchKey s' = selectedLaunchKey s
         \<and> state s' = state s))
   \<and> (selectedLaunch s = None \<and> selectedLaunchKey s = None
      \<and> (answer' = None \<or> launchesFound h' = []) \<longrightarrow>
     (let s' = executeLaunch h h' answer' debugging s
      in calls_since s s' =
           launchReadCalls h @ launchReadCalls h'
             @ [if launchesFound h' = []
                then Window_showInformationMessage
                       ''Task Bus did not find any launch configurations in launch.json.''
                else Window_showLaunchQuickPick (map launchPick (launchesFound h'))
                       ''Select the launch configuration you want to run with Task Bus'']
         \<and> filter is_execution (calls_since s s') = []
         \<and> selectedLaunch s' = None \<and> selectedLaunchKey s' = None
         \<and> selectedTask s' = selectedTask s \<and> selectedTaskKey s' = selectedTaskKey s
         \<and> state s' = state s))"
proof (intro conjI impI)
  assume a: "selectedTask s = None \<and> selectedTaskKey s = None
      \<and> (answer = None \<or> tasksFound fetched' = [])"
  let ?s1 = "refreshTasks J fetched s"
  let ?s2 = "selectTask J fetched' answer ?s1"
  from a have s1: "host_calls ?s1 = host_calls s @ fetchCalls fetched"
    "selectedTask ?s1 = None" "selectedTaskKey ?s1 = None" "state ?s1 = state s"
    by (simp_all add: refreshTasks_idle)
  from a s1 have s2: "host_calls ?s2 = host_calls s @ fetchCalls fetched @ fetchCalls fetched'
           @ [if tasksFound fetched' = []
              then Window_showInformationMessage ''Task Bus did not find any tasks in tasks.json.''
              else Window_showTaskQuickPick (map taskPick (tasksFound fetched'))
                     ''Select the task you want to run with Task Bus'']"
    "selectedTask ?s2 = None" "selectedTaskKey ?s2 = None" "state ?s2 = state s"
    by (simp_all add: selectTask_idle)
  have e: "executeTask J fetched fetched' answer started s = ?s2"
    using s1 s2 by (simp add: executeTask_def executeTask_selection_def Let_def)
  show "let s' = executeTask J fetched fetched' answer started s
      in calls_since s s' =
           fetchCalls fetched @ fetchCalls fetched'
             @ [if tasksFound fetched' = []
                then Window_showInformationMessage
                       ''Task Bus did not find any tasks in tasks.json.''
                else Window_showTaskQuickPick (map taskPick (tasksFound fetched'))
                       ''Select the task you want to run with Task Bus'']
         \<and> filter is_execution (calls_since s s') = []
         \<and> selectedTask s' = None \<and> selectedTaskKey s' = None
         \<and> selectedLaunch s' = selectedLaunch s \<and> selectedLaunchKey s' = selectedLaunchKey s
         \<and> state s' = state s"
    unfolding e Let_def using s2
    by (simp add: calls_since_def fetchCalls_no_execution)
next
  assume a: "selectedLaunch s = None \<and> selectedLaunchKey s = None
      \<and> (answer' = None \<or> launchesFound h' = [])"
  let ?s1 = "refreshLaunchConfigurations h s"
  let ?s2 = "selectLaunch h' answer' ?s1"
  from a have s1: "host_calls ?s1 = host_calls s @ launchReadCalls h"
    "selectedLaunch ?s1 = None" "selectedLaunchKey ?s1 = None" "state ?s1 = state s"
    by (simp_all add: refreshLaunch_idle)
  from a s1 have s2: "host_calls ?s2 = host_calls s @ launchReadCalls h @ launchReadCalls h'
           @ [if launchesFound h' = []
              then Window_showInformationMessage
                     ''Task Bus did not find any launch configurations in launch.json.''
              else Window_showLaunchQuickPick (map launchPick (launchesFound h'))
                     ''Select the launch configuration you want to run with Task Bus'']"
    "selectedLaunch ?s2 = None" "selectedLaunchKey ?s2 = None" "state ?s2 = state s"
    by (simp_all add: selectLaunch_idle)
  have e: "executeLaunch h h' answer' debugging s = ?s2"
    using s1 s2 by (simp add: executeLaunch_def executeLaunch_selection_def Let_def)
  show "let s' = executeLaunch h h' answer' debugging s
      in calls_since s s' =
           launchReadCalls h @ launchReadCalls h'
             @ [if launchesFound h' = []
                then Window_showInformationMessage
                       ''Task Bus did not find any launch configurations in launch.json.''
                else Window_showLaunchQuickPick (map launchPick (launchesFound h'))
                       ''Select the launch configuration you want to run with Task Bus'']
         \<and> filter is_execution (calls_since s s') = []
         \<and> selectedLaunch s' = None \<and> selectedLaunchKey s' = None
         \<and> selectedTask s' = selectedTask s \<and> selectedTaskKey s' = selectedTaskKey s
         \<and> state s' = state s"
    unfolding e Let_def using s2
    by (simp add: calls_since_def launchReadCalls_no_execution)
qed

theorem run_without_selection_witness:
  "selectedTask sample_state = None \<and> selectedTaskKey sample_state = None
   \<and> calls_since sample_state
        (executeTask sample_stringify sample_fetched sample_fetched None (Fulfilled ()) sample_state)
       = [Tasks_fetchTasks, Tasks_fetchTasks,
          Window_showTaskQuickPick [taskPick sample_test, taskPick sample_build]
            ''Select the task you want to run with Task Bus'']
   \<and> selectedTask
        (executeTask sample_stringify sample_fetched sample_fetched None (Fulfilled ()) sample_state)
       = None
   \<and> state (executeTask sample_stringify sample_fetched sample_fetched None (Fulfilled ())
               sample_state) selectedTaskKey_slot = None
   \<and> selectedLaunch sample_state = None \<and> selectedLaunchKey sample_state = None
   \<and> filter is_execution
        (calls_since sample_state
           (executeLaunch sample_settings sample_settings None (Fulfilled True) sample_state)) = []
   \<and> selectedLaunch
        (executeLaunch sample_settings sample_settings None (Fulfilled True) sample_state) = None"
  using run_without_selection [of sample_state None sample_fetched sample_stringify sample_fetched
      "Fulfilled ()" None sample_settings sample_settings "Fulfilled True"]
  by (simp add: sample_state_fields sample_tasksFound sample_launchesFound Let_def
      sample_fetchCalls launchReadCalls_no_execution)

text \<open>
  C6, as the claim states it, fails: a configuration-change event triggers no
  re-enumeration. At a change of the \<^verbatim>\<open>launch\<close> section the listener leaves the state as
  it is, and at a change of \<^verbatim>\<open>task-bus.showTaskBus\<close> it makes no enumerating call either.
\<close>

theorem configuration_change_counterexample:
  "dispatch sample_stringify (Workspace_onDidChangeConfiguration ((=) ''launch'')) sample_answers
     sample_selected = sample_selected
   \<and> filter is_enumeration
        (calls_since sample_selected
           (dispatch sample_stringify (Workspace_onDidChangeConfiguration ((=) ''launch''))
              sample_answers sample_selected)) = []
   \<and> filter is_enumeration
        (calls_since sample_selected
           (dispatch sample_stringify
              (Workspace_onDidChangeConfiguration ((=) ''task-bus.showTaskBus''))
              sample_answers sample_selected)) = []"
  by (simp add: dispatch_def onDidChangeConfiguration_calls)
     (simp add: onDidChangeConfiguration_def)

text \<open>
  C6, amended. The listener for configuration changes re-applies the two visibility
  settings when the event affects \<^verbatim>\<open>task-bus.showTaskBus\<close> or
  \<^verbatim>\<open>task-bus.showLaunchBus\<close>, and does nothing otherwise; it enumerates nothing and leaves
  the caches, the selection, the keys and the workspace state as they are. Re-enumeration
  is triggered by the file-system watchers: those on \<^verbatim>\<open>tasks.json\<close> (and a change of the
  workspace folders) fetch the tasks, those on \<^verbatim>\<open>launch.json\<close> read the launch
  configurations.
\<close>

theorem configuration_change_applies_visibility_only:
  "(let s' = dispatch J (Workspace_onDidChangeConfiguration affects) a s
    in filter is_enumeration (calls_since s s') = []
       \<and> cachedTasks s' = cachedTasks s \<and> cachedLaunches s' = cachedLaunches s
       \<and> selectedTask s' = selectedTask s \<and> selectedTaskKey s' = selectedTaskKey s
       \<and> selectedLaunch s' = selectedLaunch s \<and> selectedLaunchKey s' = selectedLaunchKey s
       \<and> state s' = state s
       \<and> s' = (if affects ''task-bus.showTaskBus'' \<or> affects ''task-bus.showLaunchBus''
               then applyVisibilitySettings (shown a) s else s))
   \<and> (ev \<in> {TasksWatcher_onDidChange, TasksWatcher_onDidCreate, TasksWatcher_onDidDelete,
             Workspace_onDidChangeWorkspaceFolders} \<longrightarrow>
        dispatch J ev a s = refreshTasks J (fetched1 a) s
        \<and> filter is_enumeration (calls_since s (dispatch J ev a s)) = [Tasks_fetchTasks])
   \<and> (ev \<in> {LaunchWatcher_onDidChange, LaunchWatcher_onDidCreate, LaunchWatcher_onDidDelete} \<longrightarrow>
        dispatch J ev a s = refreshLaunchConfigurations (settings1 a) s
        \<and> filter is_enumeration (calls_since s (dispatch J ev a s))
            = tl (launchReadCalls (settings1 a)))"
proof (intro conjI impI)
  show "let s' = dispatch J (Workspace_onDidChangeConfiguration affects) a s
    in filter is_enumeration (calls_since s s') = []
       \<and> cachedTasks s' = cachedTasks s \<and> cachedLaunches s' = cachedLaunches s
       \<and> selectedTask s' = selectedTask s \<and> selectedTaskKey s' = selectedTaskKey s
       \<and> selectedLaunch s' = selectedLaunch s \<and> selectedLaunchKey s' = selectedLaunchKey s
       \<and> state s' = state s
       \<and> s' = (if affects ''task-bus.showTaskBus'' \<or> affects ''task-bus.showLaunchBus''
               then applyVisibilitySettings (shown a) s else s)"
    by (simp add: dispatch_def Let_def onDidChangeConfiguration_calls)
       (simp add: onDidChangeConfiguration_def)
next
  assume ev: "ev \<in> {TasksWatcher_onDidChange, TasksWatcher_onDidCreate, TasksWatcher_onDidDelete,
             Workspace_onDidChangeWorkspaceFolders}"
  then show d: "dispatch J ev a s = refreshTasks J (fetched1 a) s"
    by (auto simp: dispatch_def)
  have "filter is_enumeration (calls_since s (refreshTasks J (fetched1 a) s)) = [Tasks_fetchTasks]"
    by (cases "fetched1 a") (simp_all add: calls_since_def refreshTasks_host_calls)
  with d show "filter is_enumeration (calls_since s (dispatch J ev a s)) = [Tasks_fetchTasks]"
    by simp
next
  assume ev: "ev \<in> {LaunchWatcher_onDidChange, LaunchWatcher_onDidCreate, LaunchWatcher_onDidDelete}"
  then show d: "dispatch J ev a s = refreshLaunchConfigurations (settings1 a) s"
    by (auto simp: dispatch_def)
  have "filter is_enumeration (calls_since s (refreshLaunchConfigurations (settings1 a) s))
          = tl (launchReadCalls (settings1 a))"
    by (simp add: calls_since_def refreshLaunch_host_calls launchReadCalls_def filter_id_conv)
  with d show "filter is_enumeration (calls_since s (dispatch J ev a s))
            = tl (launchReadCalls (settings1 a))"
    by simp
qed

theorem configuration_change_applies_visibility_only_witness:
  "dispatch sample_stringify TasksWatcher_onDidChange sample_answers sample_selected
     = refreshTasks sample_stringify sample_fetched sample_selected
   \<and> filter is_enumeration
        (calls_since sample_selected
           (dispatch sample_stringify TasksWatcher_onDidChange sample_answers sample_selected))
       = [Tasks_fetchTasks]
   \<and> filter is_enumeration
        (calls_since sample_selected
           (dispatch sample_stringify LaunchWatcher_onDidCreate sample_answers sample_selected))
       = [Workspace_getConfiguration ''launch'' (Some (uri sample_folder)),
          Workspace_getConfiguration ''launch'' None]
   \<and> item_visible (launchSelectorItem
        (dispatch sample_stringify
           (Workspace_onDidChangeConfiguration ((=) ''task-bus.showLaunchBus''))
           sample_answers sample_selected)) = False"
proof -
  note inst = configuration_change_applies_visibility_only [of sample_stringify
      "(=) ''task-bus.showLaunchBus''" sample_answers sample_selected]
  have t: "TasksWatcher_onDidChange \<in> {TasksWatcher_onDidChange, TasksWatcher_onDidCreate,
             TasksWatcher_onDidDelete, Workspace_onDidChangeWorkspaceFolders}"
    and l: "LaunchWatcher_onDidCreate \<in> {LaunchWatcher_onDidChange, LaunchWatcher_onDidCreate,
             LaunchWatcher_onDidDelete}"
    by simp_all
  note tw = inst [of TasksWatcher_onDidChange, THEN conjunct2, THEN conjunct1, rule_format,
      OF t, unfolded sample_answers_fields]
  note lw = inst [of LaunchWatcher_onDidCreate, THEN conjunct2, THEN conjunct2, rule_format,
      OF l, unfolded sample_answers_fields]
  note cc = inst [of TasksWatcher_onDidChange, THEN conjunct1, unfolded Let_def
      sample_answers_fields]
  have 3: "tl (launchReadCalls sample_settings)
       = [Workspace_getConfiguration ''launch'' (Some (uri sample_folder)),
          Workspace_getConfiguration ''launch'' None]"
    by (simp add: launchReadCalls_def sample_settings_def)
  from cc have "dispatch sample_stringify
           (Workspace_onDidChangeConfiguration ((=) ''task-bus.showLaunchBus''))
           sample_answers sample_selected
        = applyVisibilitySettings sample_visibility sample_selected"
    by simp
  then have 4: "item_visible (launchSelectorItem
        (dispatch sample_stringify
           (Workspace_onDidChangeConfiguration ((=) ''task-bus.showLaunchBus''))
           sample_answers sample_selected)) = False"
    by (simp add: applyVisibilitySettings_def sample_visibility_def Let_def)
  show ?thesis
    by (intro conjI)
       (rule tw [THEN conjunct1], rule tw [THEN conjunct2],
        simp only: lw [THEN conjunct2] 3, rule 4)
qed

end
